theory Spec2Isabelle
  imports Main "HOL-Library.Word"
begin

section \<open>Memory endpoints, buffers and the device stream\<close>

text \<open>
  A shallow embedding of \<^verbatim>\<open>src/backend_output_responder.cc\<close>
  (\<^verbatim>\<open>BackendOutputResponder\<close>), in the build with \<^verbatim>\<open>TRITON_ENABLE_GPU\<close> defined.

  The responder scatters one contiguous output tensor into per-response buffers. Everything
  it calls is outside the file: the response allocator, the memory manager, the copy
  primitive and the CUDA runtime. They are modelled as an explicit \<^emph>\<open>world\<close> (memory
  contents, the queue of asynchronous copies not yet executed by the device, and a trace of
  the calls made) driven by oracles that decide which calls fail and how far the device
  has progressed.

  Sizes and offsets are \<^verbatim>\<open>size_t\<close> in the source; they are natural numbers here, since they
  are positions inside one real buffer and never reach \<open>2^64\<close>.
\<close>

datatype TRITONSERVER_MemoryType =
    TRITONSERVER_MEMORY_CPU
  | TRITONSERVER_MEMORY_CPU_PINNED
  | TRITONSERVER_MEMORY_GPU

type_synonym TRITONSERVER_Error = string
type_synonym TRITONSERVER_DataType = nat
type_synonym byte = "8 word"

text \<open>
  Memory is a set of disjoint blocks, each an unbounded array of bytes. A pointer is a block
  and an offset; \<^verbatim>\<open>p + n\<close> moves the offset. The caller owns \<open>CallerBlock\<close>s (the tensor
  buffer), the \<open>idx\<close>-th response owns \<open>OutputBlock idx name\<close> for its output \<open>name\<close>,
  and the \<open>k\<close>-th call of the memory manager returns \<open>PinnedBlock k\<close>.
\<close>

datatype block = CallerBlock nat | OutputBlock nat string | PinnedBlock nat

type_synonym ptr = "block \<times> nat"
type_synonym memory = "block \<Rightarrow> nat \<Rightarrow> byte"

definition ptr_add :: "ptr \<Rightarrow> nat \<Rightarrow> ptr" where
  "ptr_add p n = (fst p, snd p + n)"

text \<open>A copy of \<open>n\<close> bytes: source pointer, destination pointer, size.\<close>

type_synonym copy_op = "ptr \<times> ptr \<times> nat"

definition do_copy :: "copy_op \<Rightarrow> memory \<Rightarrow> memory" where
  "do_copy c m =
     (case c of (s, d, n) \<Rightarrow>
        m(fst d := (\<lambda>i. if snd d \<le> i \<and> i < snd d + n
                         then m (fst s) (snd s + (i - snd d))
                         else m (fst d) i)))"

definition read_bytes :: "memory \<Rightarrow> ptr \<Rightarrow> nat \<Rightarrow> byte list" where
  "read_bytes m p n = map (\<lambda>i. m (fst p) (snd p + i)) [0..<n]"

text \<open>The calls the responder makes to its collaborators, in the order it makes them.\<close>

datatype call =
    CopyBufferCall string TRITONSERVER_MemoryType int TRITONSERVER_MemoryType int nat ptr ptr
  | MemoryManagerAllocate TRITONSERVER_MemoryType int nat
  | ResponseOutputCall nat string
  | OutputBufferCall nat string nat TRITONSERVER_MemoryType int
  | ResponseSend nat TRITONSERVER_Error
  | EventSynchronize
  | StreamSynchronize
  | EventRecord

fun is_copy :: "call \<Rightarrow> bool" where
  "is_copy (CopyBufferCall _ _ _ _ _ _ _ _) = True"
| "is_copy _ = False"

fun is_allocate :: "call \<Rightarrow> bool" where
  "is_allocate (MemoryManagerAllocate _ _ _) = True"
| "is_allocate _ = False"

fun is_output_buffer :: "call \<Rightarrow> bool" where
  "is_output_buffer (OutputBufferCall _ _ _ _ _) = True"
| "is_output_buffer _ = False"

fun is_send :: "call \<Rightarrow> bool" where
  "is_send (ResponseSend _ _) = True"
| "is_send _ = False"

fun is_synchronize :: "call \<Rightarrow> bool" where
  "is_synchronize EventSynchronize = True"
| "is_synchronize StreamSynchronize = True"
| "is_synchronize _ = False"

record world =
  mem :: memory
  stream :: "copy_op list"
  retired :: nat
  event_mark :: nat
  copy_calls :: nat
  alloc_calls :: nat
  trace :: "call list"

text \<open>
  The oracles. \<open>copy_error k\<close> is the error of the \<open>k\<close>-th \<^verbatim>\<open>CopyBuffer\<close> call, if it
  fails; \<open>alloc_error k\<close> that of the \<open>k\<close>-th pinned allocation; \<open>sched k\<close> is the number of
  queued asynchronous copies the device completes before the host runs its \<open>k\<close>-th copy call;
  \<open>GetByteSize\<close> is the byte size of a tensor of a datatype and shape, as a \<^verbatim>\<open>size_t\<close>.
\<close>

record env =
  copy_error :: "nat \<Rightarrow> TRITONSERVER_Error option"
  alloc_error :: "nat \<Rightarrow> TRITONSERVER_Error option"
  sched :: "nat \<Rightarrow> nat"
  GetByteSize :: "TRITONSERVER_DataType \<Rightarrow> int list \<Rightarrow> nat"

definition log_call :: "call \<Rightarrow> world \<Rightarrow> world" where
  "log_call c w = w\<lparr>trace := trace w @ [c]\<rparr>"

text \<open>The device executes the first \<open>k\<close> queued copies, in stream order.\<close>

fun device_run :: "nat \<Rightarrow> world \<Rightarrow> world" where
  "device_run 0 w = w"
| "device_run (Suc k) w =
     (case stream w of
        [] \<Rightarrow> w
      | c # cs \<Rightarrow>
          device_run k (w\<lparr>mem := do_copy c (mem w), stream := cs, retired := Suc (retired w)\<rparr>))"

text \<open>
  \<^verbatim>\<open>cudaStreamSynchronize\<close> waits for every queued copy; \<^verbatim>\<open>cudaEventRecord\<close> captures the
  current end of the stream, and \<^verbatim>\<open>cudaEventSynchronize\<close> waits for the copies queued
  before the captured position.
\<close>

definition cudaStreamSynchronize :: "world \<Rightarrow> world" where
  "cudaStreamSynchronize w = device_run (length (stream w)) (log_call StreamSynchronize w)"

definition cudaEventRecord :: "world \<Rightarrow> world" where
  "cudaEventRecord w =
     (log_call EventRecord w)\<lparr>event_mark := retired w + length (stream w)\<rparr>"

definition cudaEventSynchronize :: "world \<Rightarrow> world" where
  "cudaEventSynchronize w = device_run (event_mark w - retired w) (log_call EventSynchronize w)"

text \<open>
  Modelled from the spec: \<^verbatim>\<open>CopyBuffer\<close> of \<^verbatim>\<open>backend_common\<close>, which is not under src/.
  The spec: \<^emph>\<open>performs sync memcpy when both endpoints are host, async device copy otherwise;
  used_async indicates whether the stream was used\<close>. A failing call moves no bytes and
  does not use the stream. The device may progress before the call.
\<close>

definition copy_cuda_used ::
  "env \<Rightarrow> nat \<Rightarrow> TRITONSERVER_MemoryType \<Rightarrow> TRITONSERVER_MemoryType \<Rightarrow> bool" where
  "copy_cuda_used e k src_memory_type dst_memory_type =
     (copy_error e k = None \<and>
      (src_memory_type = TRITONSERVER_MEMORY_GPU \<or> dst_memory_type = TRITONSERVER_MEMORY_GPU))"

definition CopyBuffer ::
  "env \<Rightarrow> string \<Rightarrow> TRITONSERVER_MemoryType \<Rightarrow> int \<Rightarrow> TRITONSERVER_MemoryType \<Rightarrow> int \<Rightarrow>
   nat \<Rightarrow> ptr \<Rightarrow> ptr \<Rightarrow> world \<Rightarrow> (TRITONSERVER_Error option \<times> bool) \<times> world" where
  "CopyBuffer e msg src_memory_type src_memory_type_id dst_memory_type dst_memory_type_id
       byte_size src dst w =
     (let k = copy_calls w;
          w1 = (device_run (sched e k) w)\<lparr>copy_calls := Suc k\<rparr>;
          w2 = log_call (CopyBufferCall msg src_memory_type src_memory_type_id
                           dst_memory_type dst_memory_type_id byte_size src dst) w1
      in case copy_error e k of
           Some err \<Rightarrow> ((Some err, False), w2)
         | None \<Rightarrow>
             if src_memory_type \<noteq> TRITONSERVER_MEMORY_GPU \<and>
                dst_memory_type \<noteq> TRITONSERVER_MEMORY_GPU
             then ((None, False), w2\<lparr>mem := do_copy (src, dst, byte_size) (mem w2)\<rparr>)
             else ((None, True), w2\<lparr>stream := stream w2 @ [(src, dst, byte_size)]\<rparr>))"

text \<open>
  \<^verbatim>\<open>TRITONBACKEND_MemoryManagerAllocate\<close>: the \<open>k\<close>-th call fails or returns the start of the
  fresh block \<open>PinnedBlock k\<close>.
\<close>

definition MemoryManagerAllocate_call ::
  "env \<Rightarrow> TRITONSERVER_MemoryType \<Rightarrow> int \<Rightarrow> nat \<Rightarrow> world \<Rightarrow> ptr option \<times> world" where
  "MemoryManagerAllocate_call e memory_type memory_type_id byte_size w =
     (let k = alloc_calls w;
          w1 = log_call (MemoryManagerAllocate memory_type memory_type_id byte_size)
                 (w\<lparr>alloc_calls := Suc k\<rparr>)
      in case alloc_error e k of
           Some err \<Rightarrow> (None, w1)
         | None \<Rightarrow> (Some (PinnedBlock k, 0), w1))"

section \<open>The responder\<close>

text \<open>
  A request, as the responder sees it: the batch dimension of its first input, the
  outcome of \<^verbatim>\<open>TRITONBACKEND_RequestOutputCount\<close> (an error, or the outcomes of
  \<^verbatim>\<open>TRITONBACKEND_RequestOutputName\<close> for each index), of \<^verbatim>\<open>TRITONBACKEND_ResponseOutput\<close>, and
  of \<^verbatim>\<open>TRITONBACKEND_OutputBuffer\<close> (the actual memory type and id, given the preferred ones).
\<close>

record request =
  input_batch :: int
  request_outputs :: "TRITONSERVER_Error + (TRITONSERVER_Error + string) list"
  response_output_error :: "TRITONSERVER_Error option"
  output_buffer ::
    "TRITONSERVER_MemoryType \<times> int \<Rightarrow> TRITONSERVER_Error + (TRITONSERVER_MemoryType \<times> int)"

record OutputData =
  name :: string
  buffer :: ptr
  buffer_byte_size :: nat
  memory_type :: TRITONSERVER_MemoryType
  memory_type_id :: int

text \<open>
  A fragment is a pair of a response slot and its \<open>OutputData\<close>. The source keeps a pointer
  into the responses vector (\<^verbatim>\<open>TRITONBACKEND_Response**\<close>); the model keeps the index of the
  slot, and reads and nulls the slot through the responder's \<open>responses\<close>.
\<close>

type_synonym fragment = "nat \<times> OutputData"

record DeferredPinned =
  pinned_memory :: ptr
  pinned_memory_size :: nat
  deferred_responses :: "fragment list"

record config =
  requests :: "request list"
  max_batch_size :: int
  pinned_enabled :: bool
  event_configured :: bool

record responder =
  need_sync :: bool
  responses :: "nat option list"
  pending_pinned_byte_size :: nat
  pending_pinned_offset :: nat
  pending_pinned_outputs :: "fragment list"
  deferred_pinned :: "DeferredPinned list"
  pinned_memories :: "ptr list"

type_synonym state = "responder \<times> world"

text \<open>
  Modelled from the spec: the macro \<^verbatim>\<open>RESPOND_AND_SET_NULL_IF_ERROR\<close> of \<^verbatim>\<open>backend_common.h\<close>,
  which is not under src/. The spec: \<^emph>\<open>the response is sent with the complete-final flag,
  and the slot is set to null. Subsequent uses of that slot are skipped by null-checks\<close>.
  The macro evaluates its second argument before it looks at the slot.
\<close>

fun respond_and_set_null_if_error ::
  "nat \<Rightarrow> TRITONSERVER_Error option \<Rightarrow> state \<Rightarrow> state" where
  "respond_and_set_null_if_error slot err (s, w) =
     (case err of
        None \<Rightarrow> (s, w)
      | Some e \<Rightarrow>
          (case responses s ! slot of
             None \<Rightarrow> (s, w)
           | Some h \<Rightarrow>
               (s\<lparr>responses := (responses s)[slot := None]\<rparr>, log_call (ResponseSend h e) w)))"

text \<open>
  The body of the loop over fragments that the source writes three times (the direct copies
  and the fan-out of \<^verbatim>\<open>FlushPendingPinned\<close>, and the fan-out of \<^verbatim>\<open>Finalize\<close>): one copy
  from \<open>src\<close> into the fragment's buffer; a failing copy is answered on the fragment's slot.
\<close>

fun copy_fragment ::
  "env \<Rightarrow> TRITONSERVER_MemoryType \<Rightarrow> int \<Rightarrow> ptr \<Rightarrow> fragment \<Rightarrow> state \<Rightarrow> bool \<times> state" where
  "copy_fragment e src_type src_id src pr (s, w) =
     (let response_output = snd pr;
          (res, w1) = CopyBuffer e (name response_output) src_type src_id
                        (memory_type response_output) (memory_type_id response_output)
                        (buffer_byte_size response_output) src (buffer response_output) w
      in (snd res, respond_and_set_null_if_error (fst pr) (fst res) (s, w1)))"

text \<open>The loop: the offset advances by each fragment's size, the flags are accumulated.\<close>

fun copy_fragments ::
  "env \<Rightarrow> TRITONSERVER_MemoryType \<Rightarrow> int \<Rightarrow> ptr \<Rightarrow> fragment list \<Rightarrow> nat \<Rightarrow> bool \<Rightarrow>
   state \<Rightarrow> bool \<times> state" where
  "copy_fragments e src_type src_id src [] offset cuda_copy sw = (cuda_copy, sw)"
| "copy_fragments e src_type src_id src (pr # rest) offset cuda_copy sw =
     (let (cuda_used, sw1) = copy_fragment e src_type src_id (ptr_add src offset) pr sw
      in copy_fragments e src_type src_id src rest (offset + buffer_byte_size (snd pr))
           (cuda_copy \<or> cuda_used) sw1)"

text \<open>The loop of \<^verbatim>\<open>FlushPendingPinned\<close> that fails every pending response (lines 314-323).\<close>

fun fail_fragments :: "TRITONSERVER_Error \<Rightarrow> fragment list \<Rightarrow> state \<Rightarrow> state" where
  "fail_fragments err [] sw = sw"
| "fail_fragments err (pr # rest) (s, w) =
     (case responses s ! fst pr of
        None \<Rightarrow> fail_fragments err rest (s, w)
      | Some h \<Rightarrow>
          fail_fragments err rest
            (s\<lparr>responses := (responses s)[fst pr := None]\<rparr>, log_call (ResponseSend h err) w))"

text \<open>Lines 280-299: no pinned buffer, one direct copy per pending fragment.\<close>

fun flush_direct ::
  "env \<Rightarrow> ptr \<Rightarrow> TRITONSERVER_MemoryType \<Rightarrow> int \<Rightarrow> state \<Rightarrow> bool \<times> state" where
  "flush_direct e tensor_buffer tensor_memory_type tensor_memory_type_id (s, w) =
     copy_fragments e tensor_memory_type tensor_memory_type_id
       (ptr_add tensor_buffer (pending_pinned_offset s)) (pending_pinned_outputs s) 0
       False (s, w)"

text \<open>
  Lines 302-362: one copy of the pending range into the pinned buffer; on an error every
  pending response fails; then the fan-out, at once if the copy was not asynchronous,
  deferred to \<^verbatim>\<open>Finalize\<close> otherwise.
\<close>

fun flush_pinned ::
  "env \<Rightarrow> ptr \<Rightarrow> TRITONSERVER_MemoryType \<Rightarrow> int \<Rightarrow> ptr \<Rightarrow> state \<Rightarrow> bool \<times> state" where
  "flush_pinned e tensor_buffer tensor_memory_type tensor_memory_type_id pinned (s, w) =
     (let (res, w1) =
            CopyBuffer e ''pinned buffer'' tensor_memory_type tensor_memory_type_id
              TRITONSERVER_MEMORY_CPU_PINNED 0 (pending_pinned_byte_size s)
              (ptr_add tensor_buffer (pending_pinned_offset s)) pinned w;
          cuda_used = snd res;
          sw1 = (case fst res of
                   None \<Rightarrow> (s, w1)
                 | Some err \<Rightarrow> fail_fragments err (pending_pinned_outputs s) (s, w1))
      in if \<not> cuda_used
         then copy_fragments e TRITONSERVER_MEMORY_CPU_PINNED 0 pinned
                (pending_pinned_outputs s) 0 cuda_used sw1
         else (cuda_used,
               (fst sw1)\<lparr>deferred_pinned := deferred_pinned (fst sw1) @
                  [\<lparr>pinned_memory = pinned,
                    pinned_memory_size = pending_pinned_byte_size s,
                    deferred_responses = pending_pinned_outputs s\<rparr>]\<rparr>,
               snd sw1))"

fun FlushPendingPinned ::
  "env \<Rightarrow> ptr \<Rightarrow> TRITONSERVER_MemoryType \<Rightarrow> int \<Rightarrow> state \<Rightarrow> bool \<times> state" where
  "FlushPendingPinned e tensor_buffer tensor_memory_type tensor_memory_type_id (s, w) =
     (let (pinned, w1) =
            (if pending_pinned_byte_size s > 0
             then MemoryManagerAllocate_call e TRITONSERVER_MEMORY_CPU_PINNED 0
                    (pending_pinned_byte_size s) w
             else (None, w));
          (cuda_copy, s2, w2) =
            (case pinned of
               None \<Rightarrow>
                 flush_direct e tensor_buffer tensor_memory_type tensor_memory_type_id (s, w1)
             | Some pinned_mem \<Rightarrow>
                 flush_pinned e tensor_buffer tensor_memory_type tensor_memory_type_id
                   pinned_mem (s, w1));
          s3 = s2\<lparr>pending_pinned_byte_size := 0, pending_pinned_offset := 0,
                  pending_pinned_outputs := []\<rparr>;
          s4 = (case pinned of
                  None \<Rightarrow> s3
                | Some pinned_mem \<Rightarrow> s3\<lparr>pinned_memories := pinned_memories s3 @ [pinned_mem]\<rparr>)
      in (cuda_copy, s4, w2))"

fun SetFixedSizeOutputBuffer ::
  "env \<Rightarrow> config \<Rightarrow> nat \<Rightarrow> string \<Rightarrow> nat \<Rightarrow> nat \<Rightarrow> ptr \<Rightarrow> TRITONSERVER_MemoryType \<Rightarrow> int \<Rightarrow>
   TRITONSERVER_MemoryType \<Rightarrow> state \<Rightarrow> bool \<times> state" where
  "SetFixedSizeOutputBuffer e cfg idx output_name tensor_byte_size tensor_offset tensor_buffer
       tensor_memory_type tensor_memory_type_id use_pinned_memory_type (s, w) =
     (let w1 = log_call (OutputBufferCall idx output_name tensor_byte_size
                           tensor_memory_type tensor_memory_type_id) w
      in case output_buffer (requests cfg ! idx) (tensor_memory_type, tensor_memory_type_id) of
           Inl err \<Rightarrow> (False, respond_and_set_null_if_error idx (Some err) (s, w1))
         | Inr actual \<Rightarrow>
             (let buf = (OutputBlock idx output_name, 0) in
              if use_pinned_memory_type \<noteq> TRITONSERVER_MEMORY_CPU_PINNED \<and>
                 fst actual = use_pinned_memory_type
              then (False,
                    s\<lparr>pending_pinned_offset :=
                        (if pending_pinned_byte_size s = 0 then tensor_offset
                         else pending_pinned_offset s),
                      pending_pinned_byte_size := pending_pinned_byte_size s + tensor_byte_size,
                      pending_pinned_outputs := pending_pinned_outputs s @
                        [(idx, \<lparr>name = output_name, buffer = buf,
                                buffer_byte_size = tensor_byte_size,
                                memory_type = fst actual, memory_type_id = snd actual\<rparr>)]\<rparr>,
                    w1)
              else (let (res, w2) =
                          CopyBuffer e output_name tensor_memory_type tensor_memory_type_id
                            (fst actual) (snd actual) tensor_byte_size
                            (ptr_add tensor_buffer tensor_offset) buf w1
                    in (snd res, respond_and_set_null_if_error idx (fst res) (s, w2)))))"

text \<open>The arguments of one \<^verbatim>\<open>ProcessTensor\<close> call.\<close>

record tensor =
  output_name :: string
  data_type :: TRITONSERVER_DataType
  batchn_shape :: "int list"
  tensor_buffer :: ptr
  tensor_memory_type :: TRITONSERVER_MemoryType
  tensor_memory_type_id :: int

definition use_pinned_memory_type :: "config \<Rightarrow> tensor \<Rightarrow> TRITONSERVER_MemoryType" where
  "use_pinned_memory_type cfg t =
     (if pinned_enabled cfg \<and> tensor_memory_type t \<noteq> TRITONSERVER_MEMORY_CPU_PINNED
      then (if tensor_memory_type t = TRITONSERVER_MEMORY_CPU
            then TRITONSERVER_MEMORY_GPU else TRITONSERVER_MEMORY_CPU)
      else TRITONSERVER_MEMORY_CPU_PINNED)"

text \<open>
  The shape of one response (lines 86-95): with a batching model the first dimension is
  that of the request's first input. The source writes it into the caller's vector; the
  slot is overwritten in every iteration, so each response sees the shape given here.
\<close>

definition response_shape :: "config \<Rightarrow> tensor \<Rightarrow> nat \<Rightarrow> int list" where
  "response_shape cfg t idx =
     (if max_batch_size cfg \<noteq> 0
      then (batchn_shape t)[0 := input_batch (requests cfg ! idx)]
      else batchn_shape t)"

definition tensor_byte_size :: "env \<Rightarrow> config \<Rightarrow> tensor \<Rightarrow> nat \<Rightarrow> nat" where
  "tensor_byte_size e cfg t idx = GetByteSize e (data_type t) (response_shape cfg t idx)"

text \<open>
  \<^verbatim>\<open>need_sync_ |= FlushPendingPinned(buffer, memory_type, memory_type_id)\<close>, as it is written
  in the loop and after it.
\<close>

fun flush_and_latch :: "env \<Rightarrow> tensor \<Rightarrow> state \<Rightarrow> state" where
  "flush_and_latch e t sw =
     (let (cuda_copy, s1, w1) =
            FlushPendingPinned e (tensor_buffer t) (tensor_memory_type t)
              (tensor_memory_type_id t) sw
      in (s1\<lparr>need_sync := need_sync s1 \<or> cuda_copy\<rparr>, w1))"

text \<open>Lines 78-82: a pending run that does not end at \<open>tensor_offset\<close> is flushed.\<close>

fun flush_if_not_contiguous :: "env \<Rightarrow> tensor \<Rightarrow> nat \<Rightarrow> state \<Rightarrow> state" where
  "flush_if_not_contiguous e t tensor_offset (s, w) =
     (if pending_pinned_byte_size s > 0 \<and>
         tensor_offset \<noteq> pending_pinned_byte_size s + pending_pinned_offset s
      then flush_and_latch e t (s, w)
      else (s, w))"

text \<open>
  Lines 116-127, for the output found: the output is created in the response and, if
  that succeeded, its buffer is set.
\<close>

fun set_output :: "env \<Rightarrow> config \<Rightarrow> tensor \<Rightarrow> nat \<Rightarrow> nat \<Rightarrow> state \<Rightarrow> state" where
  "set_output e cfg t idx tensor_offset (s, w) =
     (let (s2, w2) = respond_and_set_null_if_error idx
                       (response_output_error (requests cfg ! idx))
                       (s, log_call (ResponseOutputCall idx (output_name t)) w)
      in if responses s2 ! idx \<noteq> None
         then (let (cuda_copy, s3, w3) =
                     SetFixedSizeOutputBuffer e cfg idx (output_name t)
                       (tensor_byte_size e cfg t idx) tensor_offset (tensor_buffer t)
                       (tensor_memory_type t) (tensor_memory_type_id t)
                       (use_pinned_memory_type cfg t) (s2, w2)
               in (s3\<lparr>need_sync := need_sync s3 \<or> cuda_copy\<rparr>, w3))
         else (s2, w2))"

text \<open>
  Lines 108-131: the loop over the outputs the request asked for. It stops at the first
  name equal to \<open>output_name\<close> (\<^verbatim>\<open>break\<close>); a failing name lookup nulls the response, after
  which no later iteration has an effect.
\<close>

fun output_loop ::
  "env \<Rightarrow> config \<Rightarrow> tensor \<Rightarrow> nat \<Rightarrow> nat \<Rightarrow> (TRITONSERVER_Error + string) list \<Rightarrow>
   state \<Rightarrow> state" where
  "output_loop e cfg t idx tensor_offset [] sw = sw"
| "output_loop e cfg t idx tensor_offset (r # rest) sw =
     (let (s1, w1) = respond_and_set_null_if_error idx
                       (case r of Inl err \<Rightarrow> Some err | Inr _ \<Rightarrow> None) sw
      in if responses s1 ! idx \<noteq> None \<and> r = Inr (output_name t)
         then set_output e cfg t idx tensor_offset (s1, w1)
         else output_loop e cfg t idx tensor_offset rest (s1, w1))"

text \<open>Lines 100-133: what the loop body does for a response, after the contiguity check.\<close>

fun respond :: "env \<Rightarrow> config \<Rightarrow> tensor \<Rightarrow> nat \<Rightarrow> nat \<Rightarrow> state \<Rightarrow> state" where
  "respond e cfg t idx tensor_offset (s, w) =
     (if responses s ! idx \<noteq> None
      then (case request_outputs (requests cfg ! idx) of
              Inl err \<Rightarrow> respond_and_set_null_if_error idx (Some err) (s, w)
            | Inr names \<Rightarrow> output_loop e cfg t idx tensor_offset names (s, w))
      else (s, w))"

text \<open>One iteration of the loop over the responses (lines 70-136), on \<open>(tensor_offset, state)\<close>.\<close>

fun process_response ::
  "env \<Rightarrow> config \<Rightarrow> tensor \<Rightarrow> nat \<Rightarrow> nat \<times> state \<Rightarrow> nat \<times> state" where
  "process_response e cfg t idx (tensor_offset, sw) =
     (tensor_offset + tensor_byte_size e cfg t idx,
      respond e cfg t idx tensor_offset (flush_if_not_contiguous e t tensor_offset sw))"

text \<open>The first \<open>n\<close> iterations of the loop, from \<open>tensor_offset = 0\<close>.\<close>

definition process_responses ::
  "env \<Rightarrow> config \<Rightarrow> tensor \<Rightarrow> nat \<Rightarrow> state \<Rightarrow> nat \<times> state" where
  "process_responses e cfg t n sw = fold (process_response e cfg t) [0..<n] (0, sw)"

fun ProcessTensor :: "env \<Rightarrow> config \<Rightarrow> tensor \<Rightarrow> state \<Rightarrow> state" where
  "ProcessTensor e cfg t (s, w) =
     (let (tensor_offset, sw1) = process_responses e cfg t (length (responses s)) (s, w);
          (s3, w3) = flush_and_latch e t sw1
      in (s3, if need_sync s3 \<and> event_configured cfg then cudaEventRecord w3 else w3))"

text \<open>
  The loops of \<^verbatim>\<open>Finalize\<close> (lines 163-185): for each deferred block the fan-out from its
  pinned buffer, with \<^verbatim>\<open>need_sync_\<close> as the accumulated flag.
\<close>

fun finalize_deferred :: "env \<Rightarrow> DeferredPinned list \<Rightarrow> state \<Rightarrow> state" where
  "finalize_deferred e [] sw = sw"
| "finalize_deferred e (d # ds) (s, w) =
     (let (cuda, s1, w1) =
            copy_fragments e TRITONSERVER_MEMORY_CPU_PINNED 0 (pinned_memory d)
              (deferred_responses d) 0 (need_sync s) (s, w)
      in finalize_deferred e ds (s1\<lparr>need_sync := cuda\<rparr>, w1))"

fun Finalize :: "env \<Rightarrow> config \<Rightarrow> state \<Rightarrow> bool \<times> state" where
  "Finalize e cfg (s, w) =
     (let sw1 = (if deferred_pinned s \<noteq> [] \<and> need_sync s
                 then (s\<lparr>need_sync := False\<rparr>,
                       if event_configured cfg then cudaEventSynchronize w
                       else cudaStreamSynchronize w)
                 else (s, w));
          (s2, w2) = finalize_deferred e (deferred_pinned s) sw1;
          w3 = (if deferred_pinned s \<noteq> [] \<and> need_sync s2 \<and> event_configured cfg
                then cudaEventRecord w2 else w2)
      in (need_sync s2, s2\<lparr>deferred_pinned := []\<rparr>, w3))"


definition new_world :: "memory \<Rightarrow> world" where
  "new_world m =
     \<lparr>mem = m, stream = [], retired = 0, event_mark = 0, copy_calls = 0, alloc_calls = 0,
      trace = []\<rparr>"

section \<open>Notions used in the statements\<close>

definition issued :: "world \<Rightarrow> world \<Rightarrow> call list" where
  "issued w w' = drop (length (trace w)) (trace w')"

fun fragment_copies ::
  "TRITONSERVER_MemoryType \<Rightarrow> int \<Rightarrow> ptr \<Rightarrow> fragment list \<Rightarrow> nat \<Rightarrow> call list" where
  "fragment_copies src_type src_id src [] offset = []"
| "fragment_copies src_type src_id src (pr # rest) offset =
     CopyBufferCall (name (snd pr)) src_type src_id (memory_type (snd pr))
       (memory_type_id (snd pr)) (buffer_byte_size (snd pr)) (ptr_add src offset)
       (buffer (snd pr))
     # fragment_copies src_type src_id src rest (offset + buffer_byte_size (snd pr))"

definition sends_of :: "nat \<Rightarrow> TRITONSERVER_Error option \<Rightarrow> responder \<Rightarrow> call list" where
  "sends_of slot err s =
     (case err of None \<Rightarrow> []
      | Some e \<Rightarrow> (case responses s ! slot of None \<Rightarrow> [] | Some h \<Rightarrow> [ResponseSend h e]))"

definition failed_sends :: "TRITONSERVER_Error \<Rightarrow> nat option list \<Rightarrow> fragment list \<Rightarrow> call list" where
  "failed_sends err rs frags =
     concat (map (\<lambda>pr. case rs ! fst pr of None \<Rightarrow> [] | Some h \<Rightarrow> [ResponseSend h err]) frags)"

definition clear_pending :: "responder \<Rightarrow> responder" where
  "clear_pending s =
     s\<lparr>pending_pinned_byte_size := 0, pending_pinned_offset := 0, pending_pinned_outputs := []\<rparr>"

definition responses_only :: "responder \<Rightarrow> responder \<Rightarrow> bool" where
  "responses_only s s' \<longleftrightarrow> (\<exists>rs. s' = s\<lparr>responses := rs\<rparr> \<and> length rs = length (responses s))"

definition trace_only :: "world \<Rightarrow> world \<Rightarrow> bool" where
  "trace_only w w' \<longleftrightarrow> (\<exists>evs. w' = w\<lparr>trace := trace w @ evs\<rparr>)"


text \<open>The position in the tensor buffer of the slice of response \<open>idx\<close>.\<close>

definition tensor_offset :: "env \<Rightarrow> config \<Rightarrow> tensor \<Rightarrow> nat \<Rightarrow> nat" where
  "tensor_offset e cfg t idx = sum_list (map (tensor_byte_size e cfg t) [0..<idx])"

text \<open>
  What the loop over the requested outputs finds: an error of a name lookup that comes
  before any match, or whether some name equals the output name.
\<close>

fun find_output ::
  "string \<Rightarrow> (TRITONSERVER_Error + string) list \<Rightarrow> TRITONSERVER_Error + bool" where
  "find_output nm [] = Inr False"
| "find_output nm (Inl err # rest) = Inl err"
| "find_output nm (Inr x # rest) = (if x = nm then Inr True else find_output nm rest)"

text \<open>
  What a non-null response is in for: an error from one of the accessors (\<open>Inl\<close>), nothing
  because it did not request the output (\<open>Inr None\<close>), or an output buffer of the actual
  memory type and id (\<open>Inr (Some actual)\<close>).
\<close>

definition response_plan ::
  "config \<Rightarrow> tensor \<Rightarrow> nat \<Rightarrow> TRITONSERVER_Error + (TRITONSERVER_MemoryType \<times> int) option" where
  "response_plan cfg t idx =
     (case request_outputs (requests cfg ! idx) of
        Inl err \<Rightarrow> Inl err
      | Inr names \<Rightarrow>
          (case find_output (output_name t) names of
             Inl err \<Rightarrow> Inl err
           | Inr found \<Rightarrow>
               if \<not> found then Inr None
               else (case response_output_error (requests cfg ! idx) of
                       Some err \<Rightarrow> Inl err
                     | None \<Rightarrow>
                         (case output_buffer (requests cfg ! idx)
                                 (tensor_memory_type t, tensor_memory_type_id t) of
                            Inl err \<Rightarrow> Inl err
                          | Inr actual \<Rightarrow> Inr (Some actual)))))"

text \<open>
  The pending run: every fragment has the size of its response's slice, and a fragment
  that holds bytes lies in the tensor where the run has arrived (\<open>pos\<close>).
\<close>

fun fragments_placed :: "env \<Rightarrow> config \<Rightarrow> tensor \<Rightarrow> nat \<Rightarrow> fragment list \<Rightarrow> bool" where
  "fragments_placed e cfg t pos [] = True"
| "fragments_placed e cfg t pos (pr # rest) =
     (buffer_byte_size (snd pr) = tensor_byte_size e cfg t (fst pr) \<and>
      (0 < buffer_byte_size (snd pr) \<longrightarrow> tensor_offset e cfg t (fst pr) = pos) \<and>
      fragments_placed e cfg t (pos + buffer_byte_size (snd pr)) rest)"

definition fragments_size :: "fragment list \<Rightarrow> nat" where
  "fragments_size frags = sum_list (map (\<lambda>pr. buffer_byte_size (snd pr)) frags)"

definition pending_inv :: "env \<Rightarrow> config \<Rightarrow> tensor \<Rightarrow> responder \<Rightarrow> bool" where
  "pending_inv e cfg t s \<longleftrightarrow>
     fragments_size (pending_pinned_outputs s) = pending_pinned_byte_size s \<and>
     fragments_placed e cfg t (pending_pinned_offset s) (pending_pinned_outputs s)"

definition no_pending :: "responder \<Rightarrow> bool" where
  "no_pending s \<longleftrightarrow>
     pending_pinned_byte_size s = 0 \<and> pending_pinned_offset s = 0 \<and>
     pending_pinned_outputs s = []"

text \<open>
  What every operation before \<^verbatim>\<open>Finalize\<close> preserves: the number of response slots, the
  null slots, the deferred blocks and the retained pinned buffers (which only grow).
\<close>

definition grows :: "responder \<Rightarrow> responder \<Rightarrow> bool" where
  "grows s s' \<longleftrightarrow>
     length (responses s') = length (responses s) \<and>
     (\<forall>i<length (responses s). responses s ! i = None \<longrightarrow> responses s' ! i = None) \<and>
     (\<exists>ds. deferred_pinned s' = deferred_pinned s @ ds) \<and>
     (\<exists>ps. pinned_memories s' = pinned_memories s @ ps)"

text \<open>The fragments of the deferred blocks, in order, and the fan-out copies they call for.\<close>

definition deferred_fragments :: "responder \<Rightarrow> fragment list" where
  "deferred_fragments s = concat (map deferred_responses (deferred_pinned s))"

definition deferred_copies :: "responder \<Rightarrow> call list" where
  "deferred_copies s =
     concat (map (\<lambda>d. fragment_copies TRITONSERVER_MEMORY_CPU_PINNED 0 (pinned_memory d)
                         (deferred_responses d) 0) (deferred_pinned s))"



section \<open>Concrete inputs\<close>

text \<open>Small inputs on which the theorems below are instantiated.\<close>

definition example_env ::
  "(nat \<Rightarrow> TRITONSERVER_Error option) \<Rightarrow> (nat \<Rightarrow> TRITONSERVER_Error option) \<Rightarrow> env" where
  "example_env ce ae =
     \<lparr>copy_error = ce, alloc_error = ae, sched = (\<lambda>_. 0),
      GetByteSize = (\<lambda>dt shape. dt * nat (prod_list shape))\<rparr>"

definition example_request :: "TRITONSERVER_MemoryType \<Rightarrow> request" where
  "example_request mt =
     \<lparr>input_batch = 1, request_outputs = Inr [Inr ''OUT''], response_output_error = None,
      output_buffer = (\<lambda>_. Inr (mt, 0))\<rparr>"

definition example_fragment :: "nat \<Rightarrow> nat \<Rightarrow> TRITONSERVER_MemoryType \<Rightarrow> fragment" where
  "example_fragment idx n mt =
     (idx, \<lparr>name = ''OUT'', buffer = (OutputBlock idx ''OUT'', 0), buffer_byte_size = n,
            memory_type = mt, memory_type_id = 0\<rparr>)"

definition example_pending :: "TRITONSERVER_MemoryType \<Rightarrow> responder" where
  "example_pending mt =
     \<lparr>need_sync = False, responses = [Some 10, Some 11], pending_pinned_byte_size = 6,
      pending_pinned_offset = 0,
      pending_pinned_outputs = [example_fragment 0 4 mt, example_fragment 1 2 mt],
      deferred_pinned = [], pinned_memories = []\<rparr>"

definition example_memory :: memory where
  "example_memory b i = (case b of CallerBlock _ \<Rightarrow> of_nat i + 1 | _ \<Rightarrow> 0)"


definition example_config :: "TRITONSERVER_MemoryType list \<Rightarrow> config" where
  "example_config mts =
     \<lparr>requests = map example_request mts, max_batch_size = 0, pinned_enabled = True,
      event_configured = False\<rparr>"



text \<open>A responder with one deferred block of two fragments, and an asynchronous copy in flight.\<close>

definition example_deferred :: responder where
  "example_deferred =
     \<lparr>need_sync = True, responses = [Some 10, Some 11], pending_pinned_byte_size = 0,
      pending_pinned_offset = 0, pending_pinned_outputs = [],
      deferred_pinned =
        [\<lparr>pinned_memory = (PinnedBlock 0, 0), pinned_memory_size = 6,
          deferred_responses = [example_fragment 0 4 TRITONSERVER_MEMORY_CPU,
                                example_fragment 1 2 TRITONSERVER_MEMORY_CPU]\<rparr>],
      pinned_memories = [(PinnedBlock 0, 0)]\<rparr>"

section \<open>Copies, fragments and the flush\<close>

declare respond_and_set_null_if_error.simps [simp del]
declare copy_fragment.simps [simp del]
declare flush_pinned.simps [simp del]
declare flush_direct.simps [simp del]
declare FlushPendingPinned.simps [simp del]
declare SetFixedSizeOutputBuffer.simps [simp del]
declare Finalize.simps [simp del]
declare ProcessTensor.simps [simp del]

lemma issued_append: "trace w' = trace w @ evs \<Longrightarrow> issued w w' = evs"
  by (simp add: issued_def)

lemma device_run_fields [simp]:
  "trace (device_run k w) = trace w"
  "copy_calls (device_run k w) = copy_calls w"
  "alloc_calls (device_run k w) = alloc_calls w"
  "event_mark (device_run k w) = event_mark w"
  by (induction k w rule: device_run.induct; simp split: list.splits)+

lemma CopyBuffer_result [simp]:
  "fst (CopyBuffer e msg st sid dt did n src dst w) =
     (copy_error e (copy_calls w), copy_cuda_used e (copy_calls w) st dt)"
  by (auto simp: CopyBuffer_def copy_cuda_used_def Let_def split: option.splits)

lemma CopyBuffer_fields [simp]:
  "trace (snd (CopyBuffer e msg st sid dt did n src dst w)) =
     trace w @ [CopyBufferCall msg st sid dt did n src dst]"
  "copy_calls (snd (CopyBuffer e msg st sid dt did n src dst w)) = Suc (copy_calls w)"
  "alloc_calls (snd (CopyBuffer e msg st sid dt did n src dst w)) = alloc_calls w"
  by (auto simp: CopyBuffer_def log_call_def Let_def split: option.splits)

lemma respond_eq:
  "respond_and_set_null_if_error slot err (s, w) =
     (s\<lparr>responses := (if err = None then responses s else (responses s)[slot := None])\<rparr>,
      w\<lparr>trace := trace w @ sends_of slot err s\<rparr>)"
proof -
  have "responses s ! slot = None \<Longrightarrow> (responses s)[slot := None] = responses s"
    by (metis list_update_id)
  then show ?thesis
    by (auto simp: respond_and_set_null_if_error.simps sends_of_def log_call_def
        split: option.splits)
qed

lemma sends_of_filter [simp]:
  "filter is_copy (sends_of slot err s) = []"
  "filter is_allocate (sends_of slot err s) = []"
  "filter is_output_buffer (sends_of slot err s) = []"
  "filter is_synchronize (sends_of slot err s) = []"
  "filter is_send (sends_of slot err s) = sends_of slot err s"
  by (auto simp: sends_of_def split: option.splits)

lemma sends_of_simps [simp]:
  "sends_of slot None s = []"
  "responses s ! slot = None \<Longrightarrow> sends_of slot err s = []"
  "responses s ! slot = Some h \<Longrightarrow> sends_of slot (Some x) s = [ResponseSend h x]"
  by (auto simp: sends_of_def split: option.splits)

lemma copy_fragment_eq:
  "copy_fragment e st sid src pr (s, w) =
     (copy_cuda_used e (copy_calls w) st (memory_type (snd pr)),
      s\<lparr>responses := (if copy_error e (copy_calls w) = None then responses s
                       else (responses s)[fst pr := None])\<rparr>,
      (snd (CopyBuffer e (name (snd pr)) st sid (memory_type (snd pr)) (memory_type_id (snd pr))
              (buffer_byte_size (snd pr)) src (buffer (snd pr)) w))
        \<lparr>trace := trace w @
           CopyBufferCall (name (snd pr)) st sid (memory_type (snd pr)) (memory_type_id (snd pr))
             (buffer_byte_size (snd pr)) src (buffer (snd pr))
           # sends_of (fst pr) (copy_error e (copy_calls w)) s\<rparr>)"
  by (simp add: copy_fragment.simps Let_def split_beta respond_eq)

lemma copy_fragments_flag:
  "copy_fragments e st sid src frags off c (s, w) = (c', s', w') \<Longrightarrow>
     c' = (c \<or> (\<exists>i<length frags.
                  copy_cuda_used e (copy_calls w + i) st (memory_type (snd (frags ! i)))))"
  "copy_fragments e st sid src frags off c (s, w) = (c', s', w') \<Longrightarrow>
     copy_calls w' = copy_calls w + length frags \<and> alloc_calls w' = alloc_calls w"
proof (induction frags arbitrary: off c s w)
  case Nil
  { case 1 then show ?case by simp }
  { case 2 then show ?case by simp }
next
  case (Cons pr rest)
  { case 1
    from Cons.IH(1)[OF 1[simplified copy_fragments.simps copy_fragment_eq Let_def prod.case]]
    show ?case by (auto simp: Ex_less_Suc2) }
  { case 2
    from Cons.IH(2)[OF 2[simplified copy_fragments.simps copy_fragment_eq Let_def prod.case]]
    show ?case by simp }
qed

lemma responses_only_refl [simp]: "responses_only s s"
  unfolding responses_only_def by (rule exI[of _ "responses s"]) simp

lemma responses_only_trans:
  "responses_only s s1 \<Longrightarrow> responses_only s1 s2 \<Longrightarrow> responses_only s s2"
  unfolding responses_only_def by auto

lemma responses_only_update [simp]:
  "responses_only s (s\<lparr>responses := (responses s)[i := x]\<rparr>)"
  unfolding responses_only_def by (rule exI[of _ "(responses s)[i := x]"]) simp

lemma responses_only_fields:
  assumes "responses_only s s'"
  shows "need_sync s' = need_sync s"
    and "pending_pinned_byte_size s' = pending_pinned_byte_size s"
    and "pending_pinned_offset s' = pending_pinned_offset s"
    and "pending_pinned_outputs s' = pending_pinned_outputs s"
    and "deferred_pinned s' = deferred_pinned s"
    and "pinned_memories s' = pinned_memories s"
    and "length (responses s') = length (responses s)"
proof -
  from assms obtain rs where "s' = s\<lparr>responses := rs\<rparr>" "length rs = length (responses s)"
    unfolding responses_only_def by blast
  then show "need_sync s' = need_sync s"
    and "pending_pinned_byte_size s' = pending_pinned_byte_size s"
    and "pending_pinned_offset s' = pending_pinned_offset s"
    and "pending_pinned_outputs s' = pending_pinned_outputs s"
    and "deferred_pinned s' = deferred_pinned s"
    and "pinned_memories s' = pinned_memories s"
    and "length (responses s') = length (responses s)"
    by simp_all
qed

lemma responses_only_eq:
  "responses_only s s' \<Longrightarrow> responses s' = responses s \<Longrightarrow> s' = s"
  unfolding responses_only_def by auto

lemma trace_only_refl [simp]: "trace_only w w"
  unfolding trace_only_def by (rule exI[of _ "[]"]) simp

lemma trace_only_trans: "trace_only w w1 \<Longrightarrow> trace_only w1 w2 \<Longrightarrow> trace_only w w2"
  unfolding trace_only_def by auto

lemma trace_only_log [simp]: "trace_only w (log_call c w)"
  unfolding trace_only_def log_call_def by blast

lemma trace_only_fields:
  assumes "trace_only w w'"
  shows "mem w' = mem w" and "stream w' = stream w" and "retired w' = retired w"
    and "event_mark w' = event_mark w" and "copy_calls w' = copy_calls w"
    and "alloc_calls w' = alloc_calls w" and "trace w' = trace w @ issued w w'"
proof -
  from assms obtain evs where "w' = w\<lparr>trace := trace w @ evs\<rparr>"
    unfolding trace_only_def by blast
  then show "mem w' = mem w" and "stream w' = stream w" and "retired w' = retired w"
    and "event_mark w' = event_mark w" and "copy_calls w' = copy_calls w"
    and "alloc_calls w' = alloc_calls w" and "trace w' = trace w @ issued w w'"
    by (simp_all add: issued_def)
qed


lemma copy_fragments_state:
  "copy_fragments e st sid src frags off c (s, w) = (c', s', w') \<Longrightarrow> responses_only s s'"
proof (induction frags arbitrary: off c s w)
  case Nil
  then show ?case by simp
next
  case (Cons pr rest)
  obtain f s1 w1 where step: "copy_fragment e st sid (ptr_add src off) pr (s, w) = (f, s1, w1)"
    using prod_cases3 by blast
  have rest: "copy_fragments e st sid src rest (off + buffer_byte_size (snd pr)) (c \<or> f)
                  (s1, w1) = (c', s', w')"
    using Cons.prems step by simp
  have "responses_only s s1"
    using step by (auto simp: copy_fragment_eq)
  then show ?case using Cons.IH[OF rest] responses_only_trans by blast
qed

lemma copy_fragments_responses:
  "copy_fragments e st sid src frags off c (s, w) = (c', s', w') \<Longrightarrow> i < length (responses s) \<Longrightarrow>
     responses s' ! i =
       (if \<exists>j<length frags. fst (frags ! j) = i \<and> copy_error e (copy_calls w + j) \<noteq> None
        then None else responses s ! i)"
proof (induction frags arbitrary: off c s w)
  case Nil
  then show ?case by simp
next
  case (Cons pr rest)
  from Cons.IH[OF Cons.prems(1)[simplified copy_fragments.simps copy_fragment_eq Let_def prod.case]]
    Cons.prems(2)
  show ?case by (auto simp: Ex_less_Suc2 nth_list_update split: if_splits)
qed

lemma issued_trans:
  "trace w1 = trace w @ evs \<Longrightarrow> trace w' = trace w1 @ issued w1 w' \<Longrightarrow>
     trace w' = trace w @ issued w w' \<and> issued w w' = evs @ issued w1 w'"
proof -
  assume "trace w1 = trace w @ evs" "trace w' = trace w1 @ issued w1 w'"
  then have "trace w' = trace w @ (evs @ issued w1 w')" by simp
  from issued_append[OF this] this show ?thesis by (simp only:)
qed

lemma copy_fragment_step:
  assumes "copy_fragment e st sid src pr (s, w) = (f, s1, w1)"
  shows "f = copy_cuda_used e (copy_calls w) st (memory_type (snd pr))"
    and "s1 = s\<lparr>responses := (if copy_error e (copy_calls w) = None then responses s
                       else (responses s)[fst pr := None])\<rparr>"
    and "trace w1 = trace w @ CopyBufferCall (name (snd pr)) st sid (memory_type (snd pr))
             (memory_type_id (snd pr)) (buffer_byte_size (snd pr)) src (buffer (snd pr))
           # sends_of (fst pr) (copy_error e (copy_calls w)) s"
    and "copy_calls w1 = Suc (copy_calls w)" and "alloc_calls w1 = alloc_calls w"
  using assms by (auto simp: copy_fragment_eq)

lemma copy_fragments_trace_all:
  "copy_fragments e st sid src frags off c (s, w) = (c', s', w') \<Longrightarrow>
     trace w' = trace w @ issued w w' \<and>
     filter is_copy (issued w w') = fragment_copies st sid src frags off \<and>
     filter is_allocate (issued w w') = [] \<and>
     filter is_output_buffer (issued w w') = [] \<and>
     filter is_synchronize (issued w w') = [] \<and>
     ((\<forall>j<length frags. copy_error e (copy_calls w + j) = None \<or>
            responses s ! fst (frags ! j) = None) \<longrightarrow> filter is_send (issued w w') = [])"
proof (induction frags arbitrary: off c s w)
  case Nil
  then show ?case by (simp add: issued_def)
next
  case (Cons pr rest)
  obtain f s1 w1 where step: "copy_fragment e st sid (ptr_add src off) pr (s, w) = (f, s1, w1)"
    using prod_cases3 by blast
  have rest: "copy_fragments e st sid src rest (off + buffer_byte_size (snd pr)) (c \<or> f)
                  (s1, w1) = (c', s', w')"
    using Cons.prems step by simp
  note st = copy_fragment_step[OF step]
  note IH = Cons.IH[OF rest]
  note tr = issued_trans[OF st(3) IH[THEN conjunct1]]
  have keep: "responses s ! k = None \<Longrightarrow> responses s1 ! k = None" for k
    unfolding st(2) by (cases "k = fst pr") (auto, metis list_update_id)
  have f1: "trace w' = trace w @ issued w w'" using tr by simp
  have f2: "filter is_copy (issued w w') = fragment_copies st sid src (pr # rest) off"
    using tr IH by simp
  have f3: "filter is_allocate (issued w w') = []"
    using tr IH by simp
  have f4: "filter is_output_buffer (issued w w') = []"
    using tr IH by simp
  have f5: "filter is_synchronize (issued w w') = []"
    using tr IH by simp
  have f6: "filter is_send (issued w w') = []"
    if a: "\<forall>j<length (pr # rest). copy_error e (copy_calls w + j) = None \<or>
            responses s ! fst ((pr # rest) ! j) = None"
  proof -
    from a have "sends_of (fst pr) (copy_error e (copy_calls w)) s = []"
      by (cases "copy_error e (copy_calls w)") auto
    moreover have "\<forall>j<length rest. copy_error e (copy_calls w1 + j) = None \<or>
            responses s1 ! fst (rest ! j) = None"
      using a keep by (auto simp: st(4) All_less_Suc2)
    ultimately show ?thesis using tr IH by simp
  qed
  show ?case using f1 f2 f3 f4 f5 f6 by (intro conjI impI)
qed

lemma copy_fragments_trace:
  assumes "copy_fragments e st sid src frags off c (s, w) = (c', s', w')"
  shows "trace w' = trace w @ issued w w'"
    and "filter is_copy (issued w w') = fragment_copies st sid src frags off"
    and "filter is_allocate (issued w w') = []"
    and "filter is_output_buffer (issued w w') = []"
    and "filter is_synchronize (issued w w') = []"
    and "(\<forall>j<length frags. copy_error e (copy_calls w + j) = None \<or>
            responses s ! fst (frags ! j) = None) \<Longrightarrow> filter is_send (issued w w') = []"
  using copy_fragments_trace_all[OF assms] by simp_all


lemma fail_fragments_sum:
  "fail_fragments err frags (s, w) = (s', w') \<Longrightarrow>
     responses_only s s' \<and>
     (\<forall>i<length (responses s).
        responses s' ! i = (if i \<in> fst ` set frags then None else responses s ! i)) \<and>
     trace_only w w' \<and>
     filter is_send (issued w w') = issued w w' \<and>
     (distinct (map fst frags) \<longrightarrow> issued w w' = failed_sends err (responses s) frags)"
proof (induction frags arbitrary: s w)
  case Nil
  then show ?case by (simp add: issued_def failed_sends_def)
next
  case (Cons pr rest)
  show ?case
  proof (cases "responses s ! fst pr")
    case None
    with Cons.prems have rest: "fail_fragments err rest (s, w) = (s', w')" by simp
    note IH = Cons.IH[OF rest]
    have "\<forall>i<length (responses s).
        responses s' ! i = (if i \<in> fst ` set (pr # rest) then None else responses s ! i)"
      using IH None by auto
    moreover have "distinct (map fst (pr # rest)) \<longrightarrow>
        issued w w' = failed_sends err (responses s) (pr # rest)"
      using IH None by (simp add: failed_sends_def)
    ultimately show ?thesis using IH by blast
  next
    case (Some h)
    let ?s1 = "s\<lparr>responses := (responses s)[fst pr := None]\<rparr>"
    let ?w1 = "log_call (ResponseSend h err) w"
    from Some Cons.prems have rest: "fail_fragments err rest (?s1, ?w1) = (s', w')" by simp
    note IH = Cons.IH[OF rest]
    have t1: "trace ?w1 = trace w @ [ResponseSend h err]" by (simp add: log_call_def)
    have t2: "trace w' = trace ?w1 @ issued ?w1 w'"
      using IH trace_only_fields(7) by blast
    note tr = issued_trans[OF t1 t2]
    have a: "responses_only s s'"
      using IH responses_only_trans[OF responses_only_update] by blast
    have c: "\<forall>i<length (responses s).
        responses s' ! i = (if i \<in> fst ` set (pr # rest) then None else responses s ! i)"
      using IH by (auto simp: nth_list_update)
    have d: "trace_only w w'"
      using IH trace_only_trans[OF trace_only_log] by blast
    have e: "filter is_send (issued w w') = issued w w'" using tr IH by simp
    have f: "issued w w' = failed_sends err (responses s) (pr # rest)"
      if dist: "distinct (map fst (pr # rest))"
    proof -
      have "responses ?s1 ! fst x = responses s ! fst x" if "x \<in> set rest" for x
      proof -
        from dist have "fst pr \<notin> fst ` set rest" by simp
        with that have "fst x \<noteq> fst pr" by (metis imageI)
        then show ?thesis by simp
      qed
      then have "failed_sends err (responses ?s1) rest = failed_sends err (responses s) rest"
        unfolding failed_sends_def
        by (intro arg_cong[where f=concat] map_cong refl) simp
      then show ?thesis using tr IH dist Some by (simp add: failed_sends_def)
    qed
    show ?thesis using a c d e f by blast
  qed
qed

lemma MemoryManagerAllocate_call_eq:
  "MemoryManagerAllocate_call e mt mid n w =
     ((if alloc_error e (alloc_calls w) = None then Some (PinnedBlock (alloc_calls w), 0) else None),
      w\<lparr>alloc_calls := Suc (alloc_calls w), trace := trace w @ [MemoryManagerAllocate mt mid n]\<rparr>)"
  by (auto simp: MemoryManagerAllocate_call_def log_call_def Let_def split: option.splits)

lemma FlushPendingPinned_no_pinned:
  assumes "pending_pinned_byte_size s = 0 \<or> alloc_error e (alloc_calls w) \<noteq> None"
  shows "FlushPendingPinned e tb tmt tmid (s, w) =
     (let w1 = (if 0 < pending_pinned_byte_size s
                then w\<lparr>alloc_calls := Suc (alloc_calls w),
                        trace := trace w @ [MemoryManagerAllocate TRITONSERVER_MEMORY_CPU_PINNED 0
                                   (pending_pinned_byte_size s)]\<rparr>
                else w);
          (cuda_copy, s2, w2) = flush_direct e tb tmt tmid (s, w1)
      in (cuda_copy, clear_pending s2, w2))"
  using assms
  by (auto simp: FlushPendingPinned.simps MemoryManagerAllocate_call_eq Let_def clear_pending_def
      split: prod.splits)

lemma FlushPendingPinned_pinned:
  assumes "0 < pending_pinned_byte_size s" "alloc_error e (alloc_calls w) = None"
  shows "FlushPendingPinned e tb tmt tmid (s, w) =
     (let pinned = (PinnedBlock (alloc_calls w), 0);
          w1 = w\<lparr>alloc_calls := Suc (alloc_calls w),
                  trace := trace w @ [MemoryManagerAllocate TRITONSERVER_MEMORY_CPU_PINNED 0
                                   (pending_pinned_byte_size s)]\<rparr>;
          (cuda_copy, s2, w2) = flush_pinned e tb tmt tmid pinned (s, w1);
          s3 = clear_pending s2
      in (cuda_copy, s3\<lparr>pinned_memories := pinned_memories s3 @ [pinned]\<rparr>, w2))"
  using assms
  by (auto simp: FlushPendingPinned.simps MemoryManagerAllocate_call_eq Let_def clear_pending_def
      split: prod.splits)

lemma failed_sends_filter [simp]:
  "filter is_send (failed_sends err rs frags) = failed_sends err rs frags"
  "filter is_copy (failed_sends err rs frags) = []"
  "filter is_allocate (failed_sends err rs frags) = []"
  unfolding failed_sends_def by (induction frags; simp split: option.splits)+

lemma copy_fragments_keeps_null:
  assumes "copy_fragments e st sid src frags off c (s, w) = (c', s', w')"
    and "i < length (responses s)" and "responses s ! i = None"
  shows "responses s' ! i = None"
  using copy_fragments_responses[OF assms(1,2)] by (simp only: assms(3) if_cancel)

lemma copy_fragments_keeps_other:
  assumes "copy_fragments e st sid src frags off c (s, w) = (c', s', w')"
    and "i < length (responses s)" and "i \<notin> fst ` set frags"
  shows "responses s' ! i = responses s ! i"
proof -
  have "\<not> (\<exists>j<length frags. fst (frags ! j) = i \<and> copy_error e (copy_calls w + j) \<noteq> None)"
    using assms(3) by (metis imageI nth_mem)
  with copy_fragments_responses[OF assms(1,2)] show ?thesis by (simp only: if_False)
qed

lemma sends_only:
  assumes "filter is_send xs = xs"
  shows "filter is_copy xs = []" and "filter is_allocate xs = []"
    and "filter is_output_buffer xs = []" and "filter is_synchronize xs = []"
proof -
  have a: "\<forall>x\<in>set xs. is_send x" using assms by (simp add: filter_id_conv)
  have b: "is_send x \<Longrightarrow> \<not> is_copy x \<and> \<not> is_allocate x \<and> \<not> is_output_buffer x \<and>
             \<not> is_synchronize x" for x by (cases x) simp_all
  show "filter is_copy xs = []" and "filter is_allocate xs = []"
    and "filter is_output_buffer xs = []" and "filter is_synchronize xs = []"
    using a b by (simp_all add: filter_empty_conv)
qed

lemma flush_pinned_async:
  assumes "copy_cuda_used e (copy_calls w) tmt TRITONSERVER_MEMORY_CPU_PINNED"
  shows "flush_pinned e tb tmt tmid pinned (s, w) =
     (True,
      s\<lparr>deferred_pinned := deferred_pinned s @
          [\<lparr>pinned_memory = pinned, pinned_memory_size = pending_pinned_byte_size s,
            deferred_responses = pending_pinned_outputs s\<rparr>]\<rparr>,
      snd (CopyBuffer e ''pinned buffer'' tmt tmid TRITONSERVER_MEMORY_CPU_PINNED 0
             (pending_pinned_byte_size s) (ptr_add tb (pending_pinned_offset s)) pinned w))"
proof -
  from assms have "copy_error e (copy_calls w) = None" by (simp add: copy_cuda_used_def)
  then show ?thesis using assms by (simp add: flush_pinned.simps Let_def split_beta)
qed

lemma flush_pinned_sync:
  assumes "\<not> copy_cuda_used e (copy_calls w) tmt TRITONSERVER_MEMORY_CPU_PINNED"
  shows "flush_pinned e tb tmt tmid pinned (s, w) =
     copy_fragments e TRITONSERVER_MEMORY_CPU_PINNED 0 pinned (pending_pinned_outputs s) 0 False
       (case copy_error e (copy_calls w) of
          None \<Rightarrow>
            (s, snd (CopyBuffer e ''pinned buffer'' tmt tmid TRITONSERVER_MEMORY_CPU_PINNED 0
                  (pending_pinned_byte_size s) (ptr_add tb (pending_pinned_offset s)) pinned w))
        | Some err \<Rightarrow>
            fail_fragments err (pending_pinned_outputs s)
              (s, snd (CopyBuffer e ''pinned buffer'' tmt tmid TRITONSERVER_MEMORY_CPU_PINNED 0
                  (pending_pinned_byte_size s) (ptr_add tb (pending_pinned_offset s)) pinned w)))"
  using assms by (simp add: flush_pinned.simps Let_def split_beta)

lemma FlushPendingPinned_allocated:
  assumes "0 < pending_pinned_byte_size s" and "alloc_error e (alloc_calls w) = None"
    and "FlushPendingPinned e tb tmt tmid (s, w) = (cuda_copy, s', w')"
  obtains s2 where
    "flush_pinned e tb tmt tmid (PinnedBlock (alloc_calls w), 0)
       (s, w\<lparr>alloc_calls := Suc (alloc_calls w),
               trace := trace w @ [MemoryManagerAllocate TRITONSERVER_MEMORY_CPU_PINNED 0
                                   (pending_pinned_byte_size s)]\<rparr>) = (cuda_copy, s2, w')"
    and "s' = (clear_pending s2)\<lparr>pinned_memories :=
                 pinned_memories s2 @ [(PinnedBlock (alloc_calls w), 0)]\<rparr>"
proof -
  let ?w1 = "w\<lparr>alloc_calls := Suc (alloc_calls w),
                    trace := trace w @ [MemoryManagerAllocate TRITONSERVER_MEMORY_CPU_PINNED 0
                                   (pending_pinned_byte_size s)]\<rparr>"
  obtain c2 s2 w2 where d:
    "flush_pinned e tb tmt tmid (PinnedBlock (alloc_calls w), 0) (s, ?w1) = (c2, s2, w2)"
    using prod_cases3 by blast
  from assms(3) have "(c2, (clear_pending s2)\<lparr>pinned_memories :=
                 pinned_memories s2 @ [(PinnedBlock (alloc_calls w), 0)]\<rparr>, w2)
      = (cuda_copy, s', w')"
    using assms(1,2) d by (simp add: FlushPendingPinned_pinned clear_pending_def)
  then show thesis using d that by simp
qed

lemma FlushPendingPinned_with_pinned:
  assumes "0 < pending_pinned_byte_size s" and "alloc_error e (alloc_calls w) = None"
    and eq: "FlushPendingPinned e tb tmt tmid (s, w) = (cuda_copy, s', w')"
  defines "pinned \<equiv> (PinnedBlock (alloc_calls w), 0)"
  defines "alloc \<equiv> MemoryManagerAllocate TRITONSERVER_MEMORY_CPU_PINNED 0
                      (pending_pinned_byte_size s)"
  defines "bulk \<equiv> CopyBufferCall ''pinned buffer'' tmt tmid TRITONSERVER_MEMORY_CPU_PINNED 0
                     (pending_pinned_byte_size s) (ptr_add tb (pending_pinned_offset s)) pinned"
  shows "trace w' = trace w @ issued w w'"
    and "filter is_allocate (issued w w') = [alloc]"
    and "copy_cuda_used e (copy_calls w) tmt TRITONSERVER_MEMORY_CPU_PINNED \<Longrightarrow>
           issued w w' = [alloc, bulk] \<and> cuda_copy \<and>
           deferred_pinned s' = deferred_pinned s @
             [\<lparr>pinned_memory = pinned, pinned_memory_size = pending_pinned_byte_size s,
               deferred_responses = pending_pinned_outputs s\<rparr>]"
    and "\<not> copy_cuda_used e (copy_calls w) tmt TRITONSERVER_MEMORY_CPU_PINNED \<Longrightarrow>
           filter is_copy (issued w w') =
             bulk # fragment_copies TRITONSERVER_MEMORY_CPU_PINNED 0 pinned
                      (pending_pinned_outputs s) 0 \<and>
           deferred_pinned s' = deferred_pinned s"
    and "pinned_memories s' = pinned_memories s @ [pinned]"
    and "pending_pinned_byte_size s' = 0 \<and> pending_pinned_offset s' = 0 \<and>
         pending_pinned_outputs s' = []"
proof -
  let ?w1 = "w\<lparr>alloc_calls := Suc (alloc_calls w), trace := trace w @ [alloc]\<rparr>"
  let ?frags = "pending_pinned_outputs s"
  let ?w2 = "snd (CopyBuffer e ''pinned buffer'' tmt tmid TRITONSERVER_MEMORY_CPU_PINNED 0
                  (pending_pinned_byte_size s) (ptr_add tb (pending_pinned_offset s)) pinned ?w1)"
  have t12: "trace ?w2 = trace w @ [alloc, bulk]" by (simp add: bulk_def)
  have kinds [simp]: "is_allocate alloc" "\<not> is_allocate bulk" "is_copy bulk" "\<not> is_copy alloc"
    by (simp_all add: alloc_def bulk_def)
  have all: "trace w' = trace w @ issued w w' \<and>
    filter is_allocate (issued w w') = [alloc] \<and>
    (copy_cuda_used e (copy_calls w) tmt TRITONSERVER_MEMORY_CPU_PINNED \<longrightarrow>
           issued w w' = [alloc, bulk] \<and> cuda_copy \<and>
           deferred_pinned s' = deferred_pinned s @
             [\<lparr>pinned_memory = pinned, pinned_memory_size = pending_pinned_byte_size s,
               deferred_responses = pending_pinned_outputs s\<rparr>]) \<and>
    (\<not> copy_cuda_used e (copy_calls w) tmt TRITONSERVER_MEMORY_CPU_PINNED \<longrightarrow>
           filter is_copy (issued w w') =
             bulk # fragment_copies TRITONSERVER_MEMORY_CPU_PINNED 0 pinned ?frags 0 \<and>
           deferred_pinned s' = deferred_pinned s) \<and>
    pinned_memories s' = pinned_memories s @ [pinned] \<and>
    (pending_pinned_byte_size s' = 0 \<and> pending_pinned_offset s' = 0 \<and>
         pending_pinned_outputs s' = [])"
  proof (rule FlushPendingPinned_allocated[OF assms(1,2) eq])
    fix s2
    assume fp: "flush_pinned e tb tmt tmid (PinnedBlock (alloc_calls w), 0)
                  (s, w\<lparr>alloc_calls := Suc (alloc_calls w),
                          trace := trace w @ [MemoryManagerAllocate TRITONSERVER_MEMORY_CPU_PINNED 0
                                   (pending_pinned_byte_size s)]\<rparr>) = (cuda_copy, s2, w')"
      and s': "s' = (clear_pending s2)\<lparr>pinned_memories :=
                       pinned_memories s2 @ [(PinnedBlock (alloc_calls w), 0)]\<rparr>"
    from fp have fp': "flush_pinned e tb tmt tmid pinned (s, ?w1) = (cuda_copy, s2, w')"
      by (simp add: pinned_def alloc_def)
    have cc1: "copy_calls ?w1 = copy_calls w" by simp
    show ?thesis
    proof (cases "copy_cuda_used e (copy_calls w) tmt TRITONSERVER_MEMORY_CPU_PINNED")
      case True
      then have u: "copy_cuda_used e (copy_calls ?w1) tmt TRITONSERVER_MEMORY_CPU_PINNED"
        by simp
      from fp' have r: "cuda_copy" "w' = ?w2"
        "s2 = s\<lparr>deferred_pinned := deferred_pinned s @
          [\<lparr>pinned_memory = pinned, pinned_memory_size = pending_pinned_byte_size s,
            deferred_responses = pending_pinned_outputs s\<rparr>]\<rparr>"
        unfolding flush_pinned_async[OF u] by simp_all
      have tw: "trace w' = trace w @ [alloc, bulk]" using r(2) t12 by simp
      have iw: "issued w w' = [alloc, bulk]" by (rule issued_append[OF tw])
      show ?thesis using True r(1) tw iw
        by (simp add: s' r(3) clear_pending_def pinned_def)
    next
      case False
      then have nu: "\<not> copy_cuda_used e (copy_calls ?w1) tmt TRITONSERVER_MEMORY_CPU_PINNED"
        by simp
      obtain s3 w3 where mid: "(case copy_error e (copy_calls ?w1) of
          None \<Rightarrow> (s, ?w2) | Some err \<Rightarrow> fail_fragments err ?frags (s, ?w2)) = (s3, w3)"
        using prod.exhaust by blast
      from fp' have cf: "copy_fragments e TRITONSERVER_MEMORY_CPU_PINNED 0 pinned ?frags 0 False
                        (s3, w3) = (cuda_copy, s2, w')"
        unfolding flush_pinned_sync[OF nu] mid .
      have m3: "responses_only s s3" "trace_only ?w2 w3"
                "filter is_send (issued ?w2 w3) = issued ?w2 w3"
      proof -
        have "responses_only s s3 \<and> trace_only ?w2 w3 \<and>
                filter is_send (issued ?w2 w3) = issued ?w2 w3"
        proof (cases "copy_error e (copy_calls ?w1)")
          case None
          have "(s, ?w2) = (s3, w3)" using mid unfolding None option.case .
          from this[symmetric] have "s3 = s" "w3 = ?w2" by simp_all
          then show ?thesis by (simp add: issued_def)
        next
          case (Some err)
          have ff: "fail_fragments err ?frags (s, ?w2) = (s3, w3)"
            using mid unfolding Some option.case .
          note fs = fail_fragments_sum[OF ff]
          show ?thesis
            by (intro conjI fs[THEN conjunct1] fs[THEN conjunct2, THEN conjunct2, THEN conjunct1]
                fs[THEN conjunct2, THEN conjunct2, THEN conjunct2, THEN conjunct1])
        qed
        then show "responses_only s s3" "trace_only ?w2 w3"
                "filter is_send (issued ?w2 w3) = issued ?w2 w3" by simp_all
      qed
      note ro3 = responses_only_fields[OF m3(1)]
      note to3 = trace_only_fields[OF m3(2)]
      note only_sends = sends_only[OF m3(3)]
      note ct = copy_fragments_trace[OF cf]
      note ro2 = responses_only_fields[OF copy_fragments_state[OF cf]]
      note tr3 = issued_trans[OF t12 to3(7)]
      have t3: "trace w3 = trace w @ issued w w3" using tr3 by simp
      note tr = issued_trans[OF t3 ct(1)]
      have f1: "trace w' = trace w @ issued w w'" using tr by simp
      have i: "issued w w' = [alloc, bulk] @ issued ?w2 w3 @ issued w3 w'"
        using tr tr3 by simp
      have f2: "filter is_allocate (issued w w') = [alloc]"
        unfolding i using only_sends ct(3) by simp
      have f3: "filter is_copy (issued w w') =
             bulk # fragment_copies TRITONSERVER_MEMORY_CPU_PINNED 0 pinned ?frags 0"
        unfolding i using only_sends ct(2) by simp
      have f4: "deferred_pinned s' = deferred_pinned s"
        using ro2(5) ro3(5) by (simp add: s' clear_pending_def)
      have f5: "pinned_memories s' = pinned_memories s @ [pinned]"
        using ro2(6) ro3(6) by (simp add: s' clear_pending_def pinned_def)
      have f6: "pending_pinned_byte_size s' = 0 \<and> pending_pinned_offset s' = 0 \<and>
         pending_pinned_outputs s' = []" by (simp add: s' clear_pending_def)
      show ?thesis using False f1 f2 f3 f4 f5 f6 by simp
    qed
  qed
  from all show "trace w' = trace w @ issued w w'"
    and "filter is_allocate (issued w w') = [alloc]"
    and "copy_cuda_used e (copy_calls w) tmt TRITONSERVER_MEMORY_CPU_PINNED \<Longrightarrow>
           issued w w' = [alloc, bulk] \<and> cuda_copy \<and>
           deferred_pinned s' = deferred_pinned s @
             [\<lparr>pinned_memory = pinned, pinned_memory_size = pending_pinned_byte_size s,
               deferred_responses = pending_pinned_outputs s\<rparr>]"
    and "\<not> copy_cuda_used e (copy_calls w) tmt TRITONSERVER_MEMORY_CPU_PINNED \<Longrightarrow>
           filter is_copy (issued w w') =
             bulk # fragment_copies TRITONSERVER_MEMORY_CPU_PINNED 0 pinned
                      (pending_pinned_outputs s) 0 \<and>
           deferred_pinned s' = deferred_pinned s"
    and "pinned_memories s' = pinned_memories s @ [pinned]"
    and "pending_pinned_byte_size s' = 0 \<and> pending_pinned_offset s' = 0 \<and>
         pending_pinned_outputs s' = []"
    by simp_all
qed

lemma FlushPendingPinned_alloc_failed:
  assumes "0 < pending_pinned_byte_size s" and "alloc_error e (alloc_calls w) \<noteq> None"
    and "FlushPendingPinned e tb tmt tmid (s, w) = (cuda_copy, s', w')"
  obtains s2 where
    "copy_fragments e tmt tmid (ptr_add tb (pending_pinned_offset s)) (pending_pinned_outputs s) 0
       False (s, w\<lparr>alloc_calls := Suc (alloc_calls w),
                    trace := trace w @ [MemoryManagerAllocate TRITONSERVER_MEMORY_CPU_PINNED 0
                                   (pending_pinned_byte_size s)]\<rparr>) = (cuda_copy, s2, w')"
    and "s' = clear_pending s2"
proof -
  let ?w1 = "w\<lparr>alloc_calls := Suc (alloc_calls w),
                    trace := trace w @ [MemoryManagerAllocate TRITONSERVER_MEMORY_CPU_PINNED 0
                                   (pending_pinned_byte_size s)]\<rparr>"
  obtain c2 s2 w2 where d: "flush_direct e tb tmt tmid (s, ?w1) = (c2, s2, w2)"
    using prod_cases3 by blast
  from assms(3) have "(c2, clear_pending s2, w2) = (cuda_copy, s', w')"
    using assms(1,2) d by (simp add: FlushPendingPinned_no_pinned)
  then show thesis using d that by (simp add: flush_direct.simps)
qed

section \<open>One response\<close>

declare set_output.simps [simp del]
declare respond.simps [simp del]
declare flush_and_latch.simps [simp del]
declare flush_if_not_contiguous.simps [simp del]
declare process_response.simps [simp del]

lemma respond_null_noop:
  "responses s ! slot = None \<Longrightarrow> respond_and_set_null_if_error slot err (s, w) = (s, w)"
  by (simp add: respond_and_set_null_if_error.simps split: option.splits)

lemma respond_none_noop [simp]: "respond_and_set_null_if_error slot None sw = sw"
  by (cases sw) (simp add: respond_and_set_null_if_error.simps)

lemma respond_live_error:
  "responses s ! slot = Some h \<Longrightarrow>
     respond_and_set_null_if_error slot (Some err) (s, w) =
       (s\<lparr>responses := (responses s)[slot := None]\<rparr>, log_call (ResponseSend h err) w)"
  by (simp add: respond_and_set_null_if_error.simps)

lemma output_loop_null:
  "responses s ! idx = None \<Longrightarrow> output_loop e cfg t idx off names (s, w) = (s, w)"
  by (induction names) (simp_all add: respond_null_noop)

lemma output_loop_find:
  assumes "responses s ! idx = Some h" and "idx < length (responses s)"
  shows "output_loop e cfg t idx off names (s, w) =
     (case find_output (output_name t) names of
        Inl err \<Rightarrow> (s\<lparr>responses := (responses s)[idx := None]\<rparr>,
                     log_call (ResponseSend h err) w)
      | Inr found \<Rightarrow> if found then set_output e cfg t idx off (s, w) else (s, w))"
proof (induction names)
  case Nil
  show ?case by simp
next
  case (Cons r rest)
  show ?case
  proof (cases r)
    case (Inl err)
    have "responses (s\<lparr>responses := (responses s)[idx := None]\<rparr>) ! idx = None"
      using assms(2) by simp
    then show ?thesis using Inl assms(1)
      by (simp add: respond_live_error output_loop_null)
  next
    case (Inr x)
    then show ?thesis using assms(1) Cons.IH by simp
  qed
qed


lemma SetFixedSizeOutputBuffer_pending:
  assumes "output_buffer (requests cfg ! idx) (tmt, tmid) = Inr actual"
    and "upmt \<noteq> TRITONSERVER_MEMORY_CPU_PINNED" and "fst actual = upmt"
  shows "SetFixedSizeOutputBuffer e cfg idx nm n off tb tmt tmid upmt (s, w) =
     (False,
      s\<lparr>pending_pinned_offset :=
           (if pending_pinned_byte_size s = 0 then off else pending_pinned_offset s),
        pending_pinned_byte_size := pending_pinned_byte_size s + n,
        pending_pinned_outputs := pending_pinned_outputs s @
           [(idx, \<lparr>name = nm, buffer = (OutputBlock idx nm, 0), buffer_byte_size = n,
                   memory_type = fst actual, memory_type_id = snd actual\<rparr>)]\<rparr>,
      log_call (OutputBufferCall idx nm n tmt tmid) w)"
  using assms by (simp add: SetFixedSizeOutputBuffer.simps Let_def)

lemma SetFixedSizeOutputBuffer_direct:
  assumes "output_buffer (requests cfg ! idx) (tmt, tmid) = Inr actual"
    and "upmt = TRITONSERVER_MEMORY_CPU_PINNED \<or> fst actual \<noteq> upmt"
  shows "SetFixedSizeOutputBuffer e cfg idx nm n off tb tmt tmid upmt (s, w) =
     (copy_cuda_used e (copy_calls w) tmt (fst actual),
      respond_and_set_null_if_error idx (copy_error e (copy_calls w))
        (s, snd (CopyBuffer e nm tmt tmid (fst actual) (snd actual) n (ptr_add tb off)
                   (OutputBlock idx nm, 0) (log_call (OutputBufferCall idx nm n tmt tmid) w))))"
  using assms by (auto simp add: SetFixedSizeOutputBuffer.simps Let_def split_beta log_call_def)




lemma respond_granted:
  assumes "responses s ! idx = Some h" and "idx < length (responses s)"
    and "response_plan cfg t idx = Inr (Some actual)"
  shows "output_buffer (requests cfg ! idx) (tensor_memory_type t, tensor_memory_type_id t) =
           Inr actual"
    and "respond e cfg t idx off (s, w) =
     (let (cuda_copy, s3, w3) =
            SetFixedSizeOutputBuffer e cfg idx (output_name t) (tensor_byte_size e cfg t idx) off
              (tensor_buffer t) (tensor_memory_type t) (tensor_memory_type_id t)
              (use_pinned_memory_type cfg t)
              (s, log_call (ResponseOutputCall idx (output_name t)) w)
      in (s3\<lparr>need_sync := need_sync s3 \<or> cuda_copy\<rparr>, w3))"
proof -
  from assms(3) obtain names where n: "request_outputs (requests cfg ! idx) = Inr names"
    and f: "find_output (output_name t) names = Inr True"
    and ro: "response_output_error (requests cfg ! idx) = None"
    and ob: "output_buffer (requests cfg ! idx) (tensor_memory_type t, tensor_memory_type_id t) =
           Inr actual"
    by (auto simp: response_plan_def split: sum.splits if_splits option.splits)
  show "output_buffer (requests cfg ! idx) (tensor_memory_type t, tensor_memory_type_id t) =
           Inr actual" by (rule ob)
  show "respond e cfg t idx off (s, w) =
     (let (cuda_copy, s3, w3) =
            SetFixedSizeOutputBuffer e cfg idx (output_name t) (tensor_byte_size e cfg t idx) off
              (tensor_buffer t) (tensor_memory_type t) (tensor_memory_type_id t)
              (use_pinned_memory_type cfg t)
              (s, log_call (ResponseOutputCall idx (output_name t)) w)
      in (s3\<lparr>need_sync := need_sync s3 \<or> cuda_copy\<rparr>, w3))"
    using assms(1) n f ro output_loop_find[OF assms(1,2)]
    by (simp add: respond.simps set_output.simps)
qed

lemma grows_refl [simp]: "grows s s"
  by (simp add: grows_def)



lemma grows_null_update [simp]:
  "grows s (s\<lparr>responses := (responses s)[i := None]\<rparr>)"
proof -
  have "(responses s)[i := None] ! j = None" if "responses s ! j = None" for j
    using that by (cases "j = i") (simp_all, metis list_update_id)
  then show ?thesis by (simp add: grows_def)
qed








section \<open>The loop over the responses\<close>



lemma fragments_size_append [simp]:
  "fragments_size (frags @ [pr]) = fragments_size frags + buffer_byte_size (snd pr)"
  by (simp add: fragments_size_def)

lemma fragments_size_Cons [simp]:
  "fragments_size (pr # frags) = buffer_byte_size (snd pr) + fragments_size frags"
  by (simp add: fragments_size_def)

lemma fragments_size_Nil [simp]: "fragments_size [] = 0"
  by (simp add: fragments_size_def)






lemma process_responses_0 [simp]: "process_responses e cfg t 0 sw = (0, sw)"
  by (simp add: process_responses_def)

lemma process_responses_Suc:
  "process_responses e cfg t (Suc k) sw =
     process_response e cfg t k (process_responses e cfg t k sw)"
  by (simp add: process_responses_def)


lemma tensor_offset_0 [simp]: "tensor_offset e cfg t 0 = 0"
  by (simp add: tensor_offset_def)



lemma no_pending_inv: "no_pending s \<Longrightarrow> pending_inv e cfg t s"
  by (simp add: no_pending_def pending_inv_def)


lemma issued_refl [simp]: "issued w w = []"
  by (simp add: issued_def)

lemma copy_fragments_kinds:
  "copy_fragments e st sid src frags off c (s, w) = (c', s', w') \<Longrightarrow>
     \<forall>x\<in>set (issued w w'). is_copy x \<or> is_send x"
proof (induction frags arbitrary: off c s w)
  case Nil
  then show ?case by simp
next
  case (Cons pr rest)
  obtain f s1 w1 where step: "copy_fragment e st sid (ptr_add src off) pr (s, w) = (f, s1, w1)"
    using prod_cases3 by blast
  have rest: "copy_fragments e st sid src rest (off + buffer_byte_size (snd pr)) (c \<or> f)
                  (s1, w1) = (c', s', w')"
    using Cons.prems step by simp
  note st = copy_fragment_step[OF step]
  note tr = issued_trans[OF st(3) copy_fragments_trace(1)[OF rest]]
  have "\<forall>x\<in>set (sends_of (fst pr) (copy_error e (copy_calls w)) s). is_send x"
    by (auto simp: sends_of_def split: option.splits)
  then show ?case using tr Cons.IH[OF rest] by auto
qed

lemma fail_fragments_kinds:
  assumes "fail_fragments err frags (s, w) = (s', w')"
  shows "trace w' = trace w @ issued w w'" and "\<forall>x\<in>set (issued w w'). is_send x"
proof -
  note fs = fail_fragments_sum[OF assms]
  show "trace w' = trace w @ issued w w'"
    by (rule trace_only_fields(7)[OF fs[THEN conjunct2, THEN conjunct2, THEN conjunct1]])
  have "filter is_send (issued w w') = issued w w'"
    by (rule fs[THEN conjunct2, THEN conjunct2, THEN conjunct2, THEN conjunct1])
  then show "\<forall>x\<in>set (issued w w'). is_send x" by (simp add: filter_id_conv)
qed

lemma flush_pinned_kinds:
  assumes "flush_pinned e tb tmt tmid pinned (s, w) = (c, s', w')"
  shows "trace w' = trace w @ issued w w'"
    and "\<forall>x\<in>set (issued w w'). is_copy x \<or> is_send x"
proof -
  let ?bulk = "CopyBufferCall ''pinned buffer'' tmt tmid TRITONSERVER_MEMORY_CPU_PINNED 0
                  (pending_pinned_byte_size s) (ptr_add tb (pending_pinned_offset s)) pinned"
  let ?w2 = "snd (CopyBuffer e ''pinned buffer'' tmt tmid TRITONSERVER_MEMORY_CPU_PINNED 0
                  (pending_pinned_byte_size s) (ptr_add tb (pending_pinned_offset s)) pinned w)"
  have t2: "trace ?w2 = trace w @ [?bulk]" by simp
  have "trace w' = trace w @ issued w w' \<and> (\<forall>x\<in>set (issued w w'). is_copy x \<or> is_send x)"
  proof (cases "copy_cuda_used e (copy_calls w) tmt TRITONSERVER_MEMORY_CPU_PINNED")
    case True
    from assms[symmetric] have "w' = ?w2" unfolding flush_pinned_async[OF True] by simp
    then have tw: "trace w' = trace w @ [?bulk]" using t2 by simp
    show ?thesis unfolding issued_append[OF tw] using tw by simp
  next
    case False
    obtain s3 w3 where mid: "(case copy_error e (copy_calls w) of
          None \<Rightarrow> (s, ?w2)
        | Some err \<Rightarrow> fail_fragments err (pending_pinned_outputs s) (s, ?w2)) = (s3, w3)"
      by (cases "(case copy_error e (copy_calls w) of
          None \<Rightarrow> (s, ?w2)
        | Some err \<Rightarrow> fail_fragments err (pending_pinned_outputs s) (s, ?w2))") simp
    from assms have cf: "copy_fragments e TRITONSERVER_MEMORY_CPU_PINNED 0 pinned
                        (pending_pinned_outputs s) 0 False (s3, w3) = (c, s', w')"
      unfolding flush_pinned_sync[OF False] mid .
    have m: "trace w3 = trace ?w2 @ issued ?w2 w3 \<and> (\<forall>x\<in>set (issued ?w2 w3). is_send x)"
    proof (cases "copy_error e (copy_calls w)")
      case None
      have "(s, ?w2) = (s3, w3)" using mid unfolding None option.case .
      from this[symmetric] have "w3 = ?w2" by simp
      then show ?thesis by simp
    next
      case (Some err)
      have "fail_fragments err (pending_pinned_outputs s) (s, ?w2) = (s3, w3)"
        using mid unfolding Some option.case .
      from fail_fragments_kinds[OF this] show ?thesis by simp
    qed
    note tr3 = issued_trans[OF t2 m[THEN conjunct1]]
    note tr = issued_trans[OF tr3[THEN conjunct1] copy_fragments_trace(1)[OF cf]]
    have i: "issued w w' = ?bulk # issued ?w2 w3 @ issued w3 w'"
      using tr[THEN conjunct2] tr3[THEN conjunct2] by simp
    have "\<forall>x\<in>set (issued w w'). is_copy x \<or> is_send x"
      unfolding i using m[THEN conjunct2] copy_fragments_kinds[OF cf] by auto
    then show ?thesis using tr[THEN conjunct1] by simp
  qed
  then show "trace w' = trace w @ issued w w'"
    and "\<forall>x\<in>set (issued w w'). is_copy x \<or> is_send x" by simp_all
qed

lemma FlushPendingPinned_kinds:
  assumes "FlushPendingPinned e tb tmt tmid (s, w) = (c, s', w')"
  shows "trace w' = trace w @ issued w w'"
    and "\<forall>x\<in>set (issued w w'). is_copy x \<or> is_send x \<or> is_allocate x"
    and "pending_pinned_byte_size s = 0 \<Longrightarrow> filter is_allocate (issued w w') = []"
    and "copy_calls w \<le> copy_calls w'" and "alloc_calls w \<le> alloc_calls w'"
proof -
  have "trace w' = trace w @ issued w w' \<and>
        (\<forall>x\<in>set (issued w w'). is_copy x \<or> is_send x \<or> is_allocate x) \<and>
        (pending_pinned_byte_size s = 0 \<longrightarrow> filter is_allocate (issued w w') = []) \<and>
        copy_calls w \<le> copy_calls w' \<and> alloc_calls w \<le> alloc_calls w'"
  proof (cases "pending_pinned_byte_size s = 0 \<or> alloc_error e (alloc_calls w) \<noteq> None")
    case True
    define evs where "evs = (if 0 < pending_pinned_byte_size s
                then [MemoryManagerAllocate TRITONSERVER_MEMORY_CPU_PINNED 0
                                   (pending_pinned_byte_size s)] else [])"
    define w1 where "w1 = (if 0 < pending_pinned_byte_size s
                then w\<lparr>alloc_calls := Suc (alloc_calls w),
                        trace := trace w @ [MemoryManagerAllocate TRITONSERVER_MEMORY_CPU_PINNED 0
                                   (pending_pinned_byte_size s)]\<rparr>
                else w)"
    obtain c2 s2 w2 where d: "flush_direct e tb tmt tmid (s, w1) = (c2, s2, w2)"
      using prod_cases3 by blast
    from assms[symmetric] have w': "w' = w2"
      unfolding FlushPendingPinned_no_pinned[OF True] Let_def w1_def[symmetric] d prod.case
      by simp
    from d have cf: "copy_fragments e tmt tmid (ptr_add tb (pending_pinned_offset s))
                       (pending_pinned_outputs s) 0 False (s, w1) = (c2, s2, w')"
      by (simp add: flush_direct.simps w')
    have t1: "trace w1 = trace w @ evs" by (simp add: w1_def evs_def)
    have cc1: "copy_calls w1 = copy_calls w" "alloc_calls w \<le> alloc_calls w1"
      by (simp_all add: w1_def)
    have ea: "\<forall>x\<in>set evs. is_allocate x" "pending_pinned_byte_size s = 0 \<longrightarrow> evs = []"
      by (simp_all add: evs_def)
    note tr = issued_trans[OF t1 copy_fragments_trace(1)[OF cf]]
    have k: "\<forall>x\<in>set (issued w w'). is_copy x \<or> is_send x \<or> is_allocate x"
      unfolding tr[THEN conjunct2] using ea(1) copy_fragments_kinds[OF cf] by auto
    have a: "pending_pinned_byte_size s = 0 \<longrightarrow> filter is_allocate (issued w w') = []"
      unfolding tr[THEN conjunct2] using ea(2) copy_fragments_trace(3)[OF cf] by simp
    have cc: "copy_calls w \<le> copy_calls w'" "alloc_calls w \<le> alloc_calls w'"
      using copy_fragments_flag(2)[OF cf] cc1 by simp_all
    show ?thesis by (intro conjI tr[THEN conjunct1] k a cc)
  next
    case False
    then have h: "0 < pending_pinned_byte_size s" "alloc_error e (alloc_calls w) = None"
      by simp_all
    show ?thesis
    proof (rule FlushPendingPinned_allocated[OF h assms])
      fix s2
      let ?w1 = "w\<lparr>alloc_calls := Suc (alloc_calls w),
               trace := trace w @ [MemoryManagerAllocate TRITONSERVER_MEMORY_CPU_PINNED 0
                                   (pending_pinned_byte_size s)]\<rparr>"
      assume fp: "flush_pinned e tb tmt tmid (PinnedBlock (alloc_calls w), 0) (s, ?w1)
                    = (c, s2, w')"
      have t1: "trace ?w1 = trace w @ [MemoryManagerAllocate TRITONSERVER_MEMORY_CPU_PINNED 0
                                   (pending_pinned_byte_size s)]" by simp
      note fk = flush_pinned_kinds[OF fp]
      note tr = issued_trans[OF t1 fk(1)]
      have k: "\<forall>x\<in>set (issued w w'). is_copy x \<or> is_send x \<or> is_allocate x"
        unfolding tr[THEN conjunct2] using fk(2) by auto
      have cc: "copy_calls ?w1 \<le> copy_calls w' \<and> alloc_calls ?w1 \<le> alloc_calls w'"
      proof (cases "copy_cuda_used e (copy_calls ?w1) tmt TRITONSERVER_MEMORY_CPU_PINNED")
        case True
        from fp[symmetric] show ?thesis unfolding flush_pinned_async[OF True] by simp
      next
        case nu: False
        let ?p = "(PinnedBlock (alloc_calls w), 0)"
        let ?w2 = "snd (CopyBuffer e ''pinned buffer'' tmt tmid TRITONSERVER_MEMORY_CPU_PINNED 0
                  (pending_pinned_byte_size s) (ptr_add tb (pending_pinned_offset s)) ?p ?w1)"
        obtain s3 w3 where mid: "(case copy_error e (copy_calls ?w1) of
            None \<Rightarrow> (s, ?w2)
          | Some err \<Rightarrow> fail_fragments err (pending_pinned_outputs s) (s, ?w2)) = (s3, w3)"
          by (cases "(case copy_error e (copy_calls ?w1) of
            None \<Rightarrow> (s, ?w2)
          | Some err \<Rightarrow> fail_fragments err (pending_pinned_outputs s) (s, ?w2))") simp
        from fp have cf: "copy_fragments e TRITONSERVER_MEMORY_CPU_PINNED 0 ?p
                        (pending_pinned_outputs s) 0 False (s3, w3) = (c, s2, w')"
          unfolding flush_pinned_sync[OF nu] mid .
        have "copy_calls w3 = copy_calls ?w2 \<and> alloc_calls w3 = alloc_calls ?w2"
        proof (cases "copy_error e (copy_calls ?w1)")
          case None
          have "(s, ?w2) = (s3, w3)" using mid unfolding None option.case .
          from this[symmetric] show ?thesis by simp
        next
          case (Some err)
          have "fail_fragments err (pending_pinned_outputs s) (s, ?w2) = (s3, w3)"
            using mid unfolding Some option.case .
          from fail_fragments_sum[OF this, THEN conjunct2, THEN conjunct2, THEN conjunct1]
          show ?thesis using trace_only_fields(5,6) by blast
        qed
        then show ?thesis using copy_fragments_flag(2)[OF cf] by simp
      qed
      then have cc': "copy_calls w \<le> copy_calls w'" "alloc_calls w \<le> alloc_calls w'"
        by simp_all
      have a: "pending_pinned_byte_size s = 0 \<longrightarrow> filter is_allocate (issued w w') = []"
        using h by simp
      show ?thesis by (intro conjI tr[THEN conjunct1] k a cc')
    qed
  qed
  then show "trace w' = trace w @ issued w w'"
    and "\<forall>x\<in>set (issued w w'). is_copy x \<or> is_send x \<or> is_allocate x"
    and "pending_pinned_byte_size s = 0 \<Longrightarrow> filter is_allocate (issued w w') = []"
    and "copy_calls w \<le> copy_calls w'" and "alloc_calls w \<le> alloc_calls w'"
    by simp_all
qed




section \<open>Finalize\<close>

lemma sync_fields [simp]:
  "trace (cudaStreamSynchronize w) = trace w @ [StreamSynchronize]"
  "copy_calls (cudaStreamSynchronize w) = copy_calls w"
  "alloc_calls (cudaStreamSynchronize w) = alloc_calls w"
  "trace (cudaEventSynchronize w) = trace w @ [EventSynchronize]"
  "copy_calls (cudaEventSynchronize w) = copy_calls w"
  "alloc_calls (cudaEventSynchronize w) = alloc_calls w"
  "trace (cudaEventRecord w) = trace w @ [EventRecord]"
  "copy_calls (cudaEventRecord w) = copy_calls w"
  "alloc_calls (cudaEventRecord w) = alloc_calls w"
  by (simp_all add: cudaStreamSynchronize_def cudaEventSynchronize_def cudaEventRecord_def
      log_call_def)

lemma ex_less_append:
  "(\<exists>j<length (xs @ ys). P j ((xs @ ys) ! j)) \<longleftrightarrow>
     (\<exists>j<length xs. P j (xs ! j)) \<or> (\<exists>j<length ys. P (length xs + j) (ys ! j))"
proof
  assume "\<exists>j<length (xs @ ys). P j ((xs @ ys) ! j)"
  then obtain j where j: "j < length (xs @ ys)" "P j ((xs @ ys) ! j)" by blast
  show "(\<exists>j<length xs. P j (xs ! j)) \<or> (\<exists>j<length ys. P (length xs + j) (ys ! j))"
  proof (cases "j < length xs")
    case True
    then show ?thesis using j by (auto simp: nth_append)
  next
    case False
    then have "j - length xs < length ys" "length xs + (j - length xs) = j"
      "(xs @ ys) ! j = ys ! (j - length xs)"
      using j by (simp_all add: nth_append)
    then show ?thesis using j(2) by metis
  qed
next
  assume "(\<exists>j<length xs. P j (xs ! j)) \<or> (\<exists>j<length ys. P (length xs + j) (ys ! j))"
  then show "\<exists>j<length (xs @ ys). P j ((xs @ ys) ! j)"
  proof
    assume "\<exists>j<length xs. P j (xs ! j)"
    then obtain j where "j < length xs" "P j (xs ! j)" by blast
    then have "j < length (xs @ ys)" "P j ((xs @ ys) ! j)" by (simp_all add: nth_append)
    then show ?thesis by blast
  next
    assume "\<exists>j<length ys. P (length xs + j) (ys ! j)"
    then obtain j where "j < length ys" "P (length xs + j) (ys ! j)" by blast
    then have "length xs + j < length (xs @ ys)" "P (length xs + j) ((xs @ ys) ! (length xs + j))"
      by simp_all
    then show ?thesis by blast
  qed
qed

lemma finalize_deferred_sum:
  "finalize_deferred e ds (s, w) = (s', w') \<Longrightarrow>
     trace w' = trace w @ issued w w' \<and>
     filter is_copy (issued w w') =
       concat (map (\<lambda>d. fragment_copies TRITONSERVER_MEMORY_CPU_PINNED 0 (pinned_memory d)
                           (deferred_responses d) 0) ds) \<and>
     (\<forall>x\<in>set (issued w w'). is_copy x \<or> is_send x) \<and>
     need_sync s' =
       (need_sync s \<or>
        (\<exists>j<length (concat (map deferred_responses ds)).
           copy_cuda_used e (copy_calls w + j) TRITONSERVER_MEMORY_CPU_PINNED
             (memory_type (snd (concat (map deferred_responses ds) ! j))))) \<and>
     copy_calls w' = copy_calls w + length (concat (map deferred_responses ds)) \<and>
     alloc_calls w' = alloc_calls w \<and>
     deferred_pinned s' = deferred_pinned s \<and> pinned_memories s' = pinned_memories s \<and>
     pending_pinned_byte_size s' = pending_pinned_byte_size s \<and>
     pending_pinned_offset s' = pending_pinned_offset s \<and>
     pending_pinned_outputs s' = pending_pinned_outputs s \<and>
     length (responses s') = length (responses s)"
proof (induction ds arbitrary: s w)
  case Nil
  then show ?case by simp
next
  case (Cons d ds)
  let ?frags = "deferred_responses d"
  let ?rest = "concat (map deferred_responses ds)"
  obtain cuda s1 w1 where cf:
    "copy_fragments e TRITONSERVER_MEMORY_CPU_PINNED 0 (pinned_memory d) ?frags 0
       (need_sync s) (s, w) = (cuda, s1, w1)"
    using prod_cases3 by blast
  have rest: "finalize_deferred e ds (s1\<lparr>need_sync := cuda\<rparr>, w1) = (s', w')"
    using Cons.prems cf by simp
  note IH = Cons.IH[OF rest]
  note ct = copy_fragments_trace[OF cf]
  note ck = copy_fragments_kinds[OF cf]
  note cfl = copy_fragments_flag[OF cf]
  note ro = responses_only_fields[OF copy_fragments_state[OF cf]]
  have t1: "trace w1 = trace w @ issued w w1" by (rule ct(1))
  note tr = issued_trans[OF t1 IH[THEN conjunct1]]
  have f1: "trace w' = trace w @ issued w w'" by (rule tr[THEN conjunct1])
  have f2: "filter is_copy (issued w w') =
       concat (map (\<lambda>d. fragment_copies TRITONSERVER_MEMORY_CPU_PINNED 0 (pinned_memory d)
                           (deferred_responses d) 0) (d # ds))"
    unfolding tr[THEN conjunct2] using ct(2) IH by simp
  have f3: "\<forall>x\<in>set (issued w w'). is_copy x \<or> is_send x"
    unfolding tr[THEN conjunct2] using ck IH by auto
  have n1: "need_sync (s1\<lparr>need_sync := cuda\<rparr>) = cuda" by simp
  have c1: "copy_calls w1 = copy_calls w + length ?frags" using cfl(2) by simp
  have "need_sync s' =
       (cuda \<or> (\<exists>j<length ?rest.
           copy_cuda_used e (copy_calls w1 + j) TRITONSERVER_MEMORY_CPU_PINNED
             (memory_type (snd (?rest ! j)))))"
    using IH n1 by simp
  also have "\<dots> = (need_sync s \<or>
        (\<exists>j<length ?frags. copy_cuda_used e (copy_calls w + j) TRITONSERVER_MEMORY_CPU_PINNED
             (memory_type (snd (?frags ! j)))) \<or>
        (\<exists>j<length ?rest.
           copy_cuda_used e (copy_calls w + (length ?frags + j)) TRITONSERVER_MEMORY_CPU_PINNED
             (memory_type (snd (?rest ! j)))))"
    unfolding cfl(1) c1 by (simp add: add.assoc)
  also have "\<dots> = (need_sync s \<or>
        (\<exists>j<length (?frags @ ?rest).
           copy_cuda_used e (copy_calls w + j) TRITONSERVER_MEMORY_CPU_PINNED
             (memory_type (snd ((?frags @ ?rest) ! j)))))"
    using ex_less_append[of ?frags ?rest "\<lambda>j pr. copy_cuda_used e (copy_calls w + j)
             TRITONSERVER_MEMORY_CPU_PINNED (memory_type (snd pr))"]
    by simp
  finally have f4: "need_sync s' =
       (need_sync s \<or>
        (\<exists>j<length (concat (map deferred_responses (d # ds))).
           copy_cuda_used e (copy_calls w + j) TRITONSERVER_MEMORY_CPU_PINNED
             (memory_type (snd (concat (map deferred_responses (d # ds)) ! j)))))"
    by simp
  have f5: "copy_calls w' = copy_calls w + length (concat (map deferred_responses (d # ds)))"
    using IH c1 by simp
  have f6: "alloc_calls w' = alloc_calls w" using IH cfl(2) by simp
  have f7: "deferred_pinned s' = deferred_pinned s" "pinned_memories s' = pinned_memories s"
     "pending_pinned_byte_size s' = pending_pinned_byte_size s"
     "pending_pinned_offset s' = pending_pinned_offset s"
     "pending_pinned_outputs s' = pending_pinned_outputs s"
     "length (responses s') = length (responses s)"
    using IH ro by simp_all
  show ?case by (intro conjI f1 f2 f3 f4 f5 f6 f7)
qed

section \<open>The direct path\<close>

lemma respond_direct:
  assumes "responses s ! idx = Some h" and "idx < length (responses s)"
    and "response_plan cfg t idx = Inr (Some actual)"
    and "use_pinned_memory_type cfg t = TRITONSERVER_MEMORY_CPU_PINNED \<or>
         fst actual \<noteq> use_pinned_memory_type cfg t"
    and "respond e cfg t idx off (s, w) = (s', w')"
  shows "s' = s\<lparr>responses := (if copy_error e (copy_calls w) = None then responses s
                                 else (responses s)[idx := None]),
                  need_sync := need_sync s \<or>
                    copy_cuda_used e (copy_calls w) (tensor_memory_type t) (fst actual)\<rparr>"
    and "trace w' = trace w @
           [ResponseOutputCall idx (output_name t),
            OutputBufferCall idx (output_name t) (tensor_byte_size e cfg t idx)
              (tensor_memory_type t) (tensor_memory_type_id t),
            CopyBufferCall (output_name t) (tensor_memory_type t) (tensor_memory_type_id t)
              (fst actual) (snd actual) (tensor_byte_size e cfg t idx)
              (ptr_add (tensor_buffer t) off) (OutputBlock idx (output_name t), 0)] @
           sends_of idx (copy_error e (copy_calls w)) s"
    and "copy_calls w' = Suc (copy_calls w)" and "alloc_calls w' = alloc_calls w"
proof -
  note g = respond_granted[OF assms(1,2,3)]
  let ?w1 = "log_call (ResponseOutputCall idx (output_name t)) w"
  let ?w2 = "log_call (OutputBufferCall idx (output_name t) (tensor_byte_size e cfg t idx)
                      (tensor_memory_type t) (tensor_memory_type_id t)) ?w1"
  let ?wc = "snd (CopyBuffer e (output_name t) (tensor_memory_type t) (tensor_memory_type_id t)
                   (fst actual) (snd actual) (tensor_byte_size e cfg t idx)
                   (ptr_add (tensor_buffer t) off) (OutputBlock idx (output_name t), 0) ?w2)"
  have cc: "copy_calls ?w1 = copy_calls w" "copy_calls ?w2 = copy_calls w"
    by (simp_all add: log_call_def)
  from assms(5)[symmetric] have e: "(s', w') =
     ((fst (respond_and_set_null_if_error idx (copy_error e (copy_calls w)) (s, ?wc)))
        \<lparr>need_sync := need_sync (fst (respond_and_set_null_if_error idx
                          (copy_error e (copy_calls w)) (s, ?wc))) \<or>
            copy_cuda_used e (copy_calls w) (tensor_memory_type t) (fst actual)\<rparr>,
      snd (respond_and_set_null_if_error idx (copy_error e (copy_calls w)) (s, ?wc)))"
    unfolding g(2) SetFixedSizeOutputBuffer_direct[OF g(1) assms(4)] Let_def prod.case cc
    by (simp add: split_beta)
  from e show "s' = s\<lparr>responses := (if copy_error e (copy_calls w) = None then responses s
                                 else (responses s)[idx := None]),
                  need_sync := need_sync s \<or>
                    copy_cuda_used e (copy_calls w) (tensor_memory_type t) (fst actual)\<rparr>"
    by (simp add: respond_eq)
  from e have w': "w' = ?wc\<lparr>trace := trace ?wc @ sends_of idx (copy_error e (copy_calls w)) s\<rparr>"
    by (simp add: respond_eq)
  show "trace w' = trace w @
           [ResponseOutputCall idx (output_name t),
            OutputBufferCall idx (output_name t) (tensor_byte_size e cfg t idx)
              (tensor_memory_type t) (tensor_memory_type_id t),
            CopyBufferCall (output_name t) (tensor_memory_type t) (tensor_memory_type_id t)
              (fst actual) (snd actual) (tensor_byte_size e cfg t idx)
              (ptr_add (tensor_buffer t) off) (OutputBlock idx (output_name t), 0)] @
           sends_of idx (copy_error e (copy_calls w)) s"
    unfolding w' by (simp add: log_call_def)
  show "copy_calls w' = Suc (copy_calls w)" unfolding w' by (simp add: log_call_def)
  show "alloc_calls w' = alloc_calls w" unfolding w' by (simp add: log_call_def)
qed






section \<open>A pending run between two direct copies\<close>

lemma respond_pending_case:
  assumes "responses s ! idx = Some h" and "idx < length (responses s)"
    and "response_plan cfg t idx = Inr (Some actual)"
    and "use_pinned_memory_type cfg t \<noteq> TRITONSERVER_MEMORY_CPU_PINNED"
    and "fst actual = use_pinned_memory_type cfg t"
    and "respond e cfg t idx off (s, w) = (s', w')"
  shows "s' = s\<lparr>pending_pinned_offset :=
                    (if pending_pinned_byte_size s = 0 then off else pending_pinned_offset s),
                  pending_pinned_byte_size :=
                    pending_pinned_byte_size s + tensor_byte_size e cfg t idx,
                  pending_pinned_outputs := pending_pinned_outputs s @
                    [(idx, \<lparr>name = output_name t, buffer = (OutputBlock idx (output_name t), 0),
                            buffer_byte_size = tensor_byte_size e cfg t idx,
                            memory_type = fst actual, memory_type_id = snd actual\<rparr>)]\<rparr>"
    and "w' = w\<lparr>trace := trace w @
           [ResponseOutputCall idx (output_name t),
            OutputBufferCall idx (output_name t) (tensor_byte_size e cfg t idx)
              (tensor_memory_type t) (tensor_memory_type_id t)]\<rparr>"
proof -
  note g = respond_granted[OF assms(1,2,3)]
  from assms(6)[symmetric] have e: "(s', w') =
     (s\<lparr>pending_pinned_offset :=
                    (if pending_pinned_byte_size s = 0 then off else pending_pinned_offset s),
                  pending_pinned_byte_size :=
                    pending_pinned_byte_size s + tensor_byte_size e cfg t idx,
                  pending_pinned_outputs := pending_pinned_outputs s @
                    [(idx, \<lparr>name = output_name t, buffer = (OutputBlock idx (output_name t), 0),
                            buffer_byte_size = tensor_byte_size e cfg t idx,
                            memory_type = fst actual, memory_type_id = snd actual\<rparr>)],
          need_sync := need_sync s\<rparr>,
      log_call (OutputBufferCall idx (output_name t) (tensor_byte_size e cfg t idx)
              (tensor_memory_type t) (tensor_memory_type_id t))
        (log_call (ResponseOutputCall idx (output_name t)) w))"
    unfolding g(2) SetFixedSizeOutputBuffer_pending[OF g(1) assms(4,5)] Let_def prod.case
    by simp
  from e show "s' = s\<lparr>pending_pinned_offset :=
                    (if pending_pinned_byte_size s = 0 then off else pending_pinned_offset s),
                  pending_pinned_byte_size :=
                    pending_pinned_byte_size s + tensor_byte_size e cfg t idx,
                  pending_pinned_outputs := pending_pinned_outputs s @
                    [(idx, \<lparr>name = output_name t, buffer = (OutputBlock idx (output_name t), 0),
                            buffer_byte_size = tensor_byte_size e cfg t idx,
                            memory_type = fst actual, memory_type_id = snd actual\<rparr>)]\<rparr>"
    by simp
  from e show "w' = w\<lparr>trace := trace w @
           [ResponseOutputCall idx (output_name t),
            OutputBufferCall idx (output_name t) (tensor_byte_size e cfg t idx)
              (tensor_memory_type t) (tensor_memory_type_id t)]\<rparr>"
    by (simp add: log_call_def)
qed

lemma FlushPendingPinned_allocates:
  assumes "FlushPendingPinned e tb tmt tmid (s, w) = (c, s', w')"
  shows "filter is_allocate (issued w w') =
           (if 0 < pending_pinned_byte_size s
            then [MemoryManagerAllocate TRITONSERVER_MEMORY_CPU_PINNED 0
                    (pending_pinned_byte_size s)]
            else [])"
proof (cases "0 < pending_pinned_byte_size s")
  case False
  then show ?thesis using FlushPendingPinned_kinds(3)[OF assms] by simp
next
  case True
  show ?thesis
  proof (cases "alloc_error e (alloc_calls w)")
    case None
    from FlushPendingPinned_with_pinned(2)[OF True None assms] True show ?thesis by simp
  next
    case (Some err)
    then have ne: "alloc_error e (alloc_calls w) \<noteq> None" by simp
    show ?thesis
    proof (rule FlushPendingPinned_alloc_failed[OF True ne assms])
      fix s2
      let ?w1 = "w\<lparr>alloc_calls := Suc (alloc_calls w),
                    trace := trace w @ [MemoryManagerAllocate TRITONSERVER_MEMORY_CPU_PINNED 0
                                   (pending_pinned_byte_size s)]\<rparr>"
      assume cf: "copy_fragments e tmt tmid (ptr_add tb (pending_pinned_offset s))
                    (pending_pinned_outputs s) 0 False (s, ?w1) = (c, s2, w')"
      have t1: "trace ?w1 = trace w @ [MemoryManagerAllocate TRITONSERVER_MEMORY_CPU_PINNED 0
                                   (pending_pinned_byte_size s)]" by simp
      note tr = issued_trans[OF t1 copy_fragments_trace(1)[OF cf]]
      show ?thesis unfolding tr[THEN conjunct2] using copy_fragments_trace(3)[OF cf] True
        by simp
    qed
  qed
qed


lemma process_responses_step:
  assumes "process_responses e cfg t k (s, w) = (off, sk, wk)"
    and "pending_pinned_byte_size sk = 0 \<or>
         off = pending_pinned_byte_size sk + pending_pinned_offset sk"
  shows "process_responses e cfg t (Suc k) (s, w) =
           (off + tensor_byte_size e cfg t k, respond e cfg t k off (sk, wk))"
  using assms by (auto simp: process_responses_Suc process_response.simps
      flush_if_not_contiguous.simps)

lemma S5_run:
  assumes rs: "responses s = [Some h0, Some h1, Some h2]"
    and np: "pending_pinned_byte_size s = 0" "pending_pinned_outputs s = []"
    and p0: "response_plan cfg t 0 = Inr (Some (TRITONSERVER_MEMORY_CPU_PINNED, i0))"
    and p1: "response_plan cfg t 1 = Inr (Some (TRITONSERVER_MEMORY_CPU, i1))"
    and p2: "response_plan cfg t 2 = Inr (Some (TRITONSERVER_MEMORY_CPU_PINNED, i2))"
    and gpu: "tensor_memory_type t = TRITONSERVER_MEMORY_GPU" and pe: "pinned_enabled cfg"
  obtains off1 s1 w1 off2 s2 w2 off3 s3 w3 s4 w4 where
    "process_responses e cfg t 1 (s, w) = (off1, s1, w1)"
    "pending_pinned_byte_size s1 = 0" "pending_pinned_outputs s1 = []"
    "process_responses e cfg t 2 (s, w) = (off2, s2, w2)"
    "map fst (pending_pinned_outputs s2) = [1]"
    "pending_pinned_byte_size s2 = tensor_byte_size e cfg t 1"
    "pending_pinned_offset s2 = tensor_offset e cfg t 1"
    "process_responses e cfg t 3 (s, w) = (off3, s3, w3)"
    "pending_pinned_outputs s3 = pending_pinned_outputs s2"
    "pending_pinned_byte_size s3 = tensor_byte_size e cfg t 1"
    "trace w3 = trace w @ issued w w3" "filter is_allocate (issued w w3) = []"
    "ProcessTensor e cfg t (s, w) = (s4, w4)"
    "trace w4 = trace w @ issued w w4"
    "filter is_allocate (issued w w4) =
       (if 0 < tensor_byte_size e cfg t 1
        then [MemoryManagerAllocate TRITONSERVER_MEMORY_CPU_PINNED 0 (tensor_byte_size e cfg t 1)]
        else [])"
proof -
  have up: "use_pinned_memory_type cfg t = TRITONSERVER_MEMORY_CPU"
    using gpu pe by (simp add: use_pinned_memory_type_def)
  have len: "length (responses s) = 3" using rs by simp
  \<comment> \<open>response 0: a direct copy\<close>
  obtain s1 w1 where r0: "respond e cfg t 0 0 (s, w) = (s1, w1)" using prod.exhaust by blast
  have P1: "process_responses e cfg t 1 (s, w) = (tensor_byte_size e cfg t 0, s1, w1)"
    using process_responses_step[of e cfg t 0 s w 0 s w] np r0 by simp
  have l0: "responses s ! 0 = Some h0" "0 < length (responses s)" using rs by simp_all
  have d0: "use_pinned_memory_type cfg t = TRITONSERVER_MEMORY_CPU_PINNED \<or>
            fst (TRITONSERVER_MEMORY_CPU_PINNED, i0) \<noteq> use_pinned_memory_type cfg t"
    using up by simp
  note a0 = respond_direct[OF l0 p0 d0 r0]
  have s1: "pending_pinned_byte_size s1 = 0" "pending_pinned_outputs s1 = []"
    "responses s1 ! 1 = Some h1" "responses s1 ! 2 = Some h2" "length (responses s1) = 3"
    unfolding a0(1) using np rs by simp_all
  have i1: "filter is_allocate (issued w w1) = []"
    unfolding issued_append[OF a0(2)] by simp
  have t1: "trace w1 = trace w @ issued w w1" unfolding issued_append[OF a0(2)] by (rule a0(2))
  \<comment> \<open>response 1: the pending run\<close>
  obtain s2 w2 where r1: "respond e cfg t 1 (tensor_byte_size e cfg t 0) (s1, w1) = (s2, w2)"
    using prod.exhaust by blast
  have P2: "process_responses e cfg t 2 (s, w) =
              (tensor_byte_size e cfg t 0 + tensor_byte_size e cfg t 1, s2, w2)"
    using process_responses_step[OF P1] s1(1) r1 by (simp add: numeral_2_eq_2)
  have l1: "1 < length (responses s1)" using s1(5) by simp
  have u1: "use_pinned_memory_type cfg t \<noteq> TRITONSERVER_MEMORY_CPU_PINNED"
    "fst (TRITONSERVER_MEMORY_CPU, i1) = use_pinned_memory_type cfg t"
    using up by simp_all
  note a1 = respond_pending_case[OF s1(3) l1 p1 u1 r1]
  have o1: "tensor_offset e cfg t 1 = tensor_byte_size e cfg t 0"
    by (simp add: tensor_offset_def)
  have s2: "map fst (pending_pinned_outputs s2) = [1]"
    "pending_pinned_byte_size s2 = tensor_byte_size e cfg t 1"
    "pending_pinned_offset s2 = tensor_offset e cfg t 1"
    "responses s2 ! 2 = Some h2" "length (responses s2) = 3"
    unfolding a1(1) o1 using s1 by simp_all
  have t12: "trace w2 = trace w1 @ [ResponseOutputCall 1 (output_name t),
            OutputBufferCall 1 (output_name t) (tensor_byte_size e cfg t 1)
              (tensor_memory_type t) (tensor_memory_type_id t)]"
    unfolding a1(2) by simp
  have t2: "trace w2 = trace w @ (issued w w1 @ [ResponseOutputCall 1 (output_name t),
            OutputBufferCall 1 (output_name t) (tensor_byte_size e cfg t 1)
              (tensor_memory_type t) (tensor_memory_type_id t)])"
    unfolding t12 using t1 by simp
  have i2: "filter is_allocate (issued w w2) = []"
    unfolding issued_append[OF t2] using i1 by simp
  \<comment> \<open>response 2: contiguous with the run, and a direct copy\<close>
  obtain s3 w3 where r2: "respond e cfg t 2
       (tensor_byte_size e cfg t 0 + tensor_byte_size e cfg t 1) (s2, w2) = (s3, w3)"
    using prod.exhaust by blast
  have c2: "pending_pinned_byte_size s2 = 0 \<or>
        tensor_byte_size e cfg t 0 + tensor_byte_size e cfg t 1 =
          pending_pinned_byte_size s2 + pending_pinned_offset s2"
    using s2(2,3) o1 by simp
  have P3: "process_responses e cfg t 3 (s, w) =
              (tensor_byte_size e cfg t 0 + tensor_byte_size e cfg t 1 + tensor_byte_size e cfg t 2,
               s3, w3)"
    using process_responses_step[OF P2 c2] r2 by (simp add: numeral_3_eq_3 numeral_2_eq_2)
  have l2: "2 < length (responses s2)" using s2(5) by simp
  have d2: "use_pinned_memory_type cfg t = TRITONSERVER_MEMORY_CPU_PINNED \<or>
            fst (TRITONSERVER_MEMORY_CPU_PINNED, i2) \<noteq> use_pinned_memory_type cfg t"
    using up by simp
  note a2 = respond_direct[OF s2(4) l2 p2 d2 r2]
  have s3: "pending_pinned_outputs s3 = pending_pinned_outputs s2"
    "pending_pinned_byte_size s3 = tensor_byte_size e cfg t 1"
    "length (responses s3) = 3"
    unfolding a2(1) using s2 by simp_all
  have t3: "trace w3 = trace w @ (issued w w2 @ issued w2 w3)"
    unfolding a2(2) issued_append[OF a2(2)] issued_append[OF t2] using t2 by simp
  have i23: "filter is_allocate (issued w2 w3) = []"
    unfolding issued_append[OF a2(2)] by simp
  have i3: "filter is_allocate (issued w w3) = []"
    unfolding issued_append[OF t3] using i2 i23 by simp
  have t3': "trace w3 = trace w @ issued w w3"
    unfolding issued_append[OF t3] by (rule t3)
  \<comment> \<open>end of the tensor: the flush\<close>
  obtain c sf wf where fl: "FlushPendingPinned e (tensor_buffer t) (tensor_memory_type t)
              (tensor_memory_type_id t) (s3, w3) = (c, sf, wf)"
    using prod_cases3 by blast
  define s4 where "s4 = sf\<lparr>need_sync := need_sync sf \<or> c\<rparr>"
  define w4 where "w4 = (if need_sync s4 \<and> event_configured cfg then cudaEventRecord wf else wf)"
  define recs where "recs = (if need_sync s4 \<and> event_configured cfg then [EventRecord] else [])"
  have P3': "process_responses e cfg t (length (responses s)) (s, w) =
              (tensor_byte_size e cfg t 0 + tensor_byte_size e cfg t 1 + tensor_byte_size e cfg t 2,
               s3, w3)"
    unfolding len by (rule P3)
  have PT: "ProcessTensor e cfg t (s, w) = (s4, w4)"
    by (simp add: ProcessTensor.simps P3' flush_and_latch.simps fl s4_def w4_def)
  note fk = FlushPendingPinned_kinds(1)[OF fl]
  note fa = FlushPendingPinned_allocates[OF fl]
  have t4: "trace w4 = trace w @ (issued w w3 @ issued w3 wf @ recs)"
    unfolding w4_def recs_def using fk t3' by simp
  have i4: "filter is_allocate (issued w w4) =
       (if 0 < tensor_byte_size e cfg t 1
        then [MemoryManagerAllocate TRITONSERVER_MEMORY_CPU_PINNED 0 (tensor_byte_size e cfg t 1)]
        else [])"
    unfolding issued_append[OF t4] using i3 fa s3(2) by (simp add: recs_def)
  have t4': "trace w4 = trace w @ issued w w4" unfolding issued_append[OF t4] by (rule t4)
  show thesis
    by (rule that[OF P1 s1(1,2) P2 s2(1,2,3) P3 s3(1,2) t3' i3 PT t4' i4])
qed

section \<open>Claim C4: Finalize\<close>

text \<open>
  Claim C4. \<^verbatim>\<open>Finalize\<close> synchronizes, on the event if one is configured and on the stream
  otherwise, exactly when there is a deferred block and \<^verbatim>\<open>need_sync_\<close> is set, and then
  clears \<^verbatim>\<open>need_sync_\<close>; next it makes, for every deferred block in order, one copy per
  fragment from the block's pinned buffer at the fragment's offset into the fragment's
  response buffer; \<^verbatim>\<open>need_sync_\<close> ends up set exactly when it was set and not cleared by
  a synchronization, or one of these copies was asynchronous; no deferred block is left,
  and the value returned is the final \<^verbatim>\<open>need_sync_\<close>.
\<close>

theorem C4_Finalize:
  "case Finalize e cfg (s, w) of
     (r, s', w') \<Rightarrow>
       (\<exists>fan. issued w w' =
                (if deferred_pinned s \<noteq> [] \<and> need_sync s
                 then [if event_configured cfg then EventSynchronize else StreamSynchronize]
                 else []) @ fan @
                (if deferred_pinned s \<noteq> [] \<and> need_sync s' \<and> event_configured cfg
                 then [EventRecord] else []) \<and>
              filter is_copy fan = deferred_copies s \<and>
              list_all (\<lambda>x. is_copy x \<or> is_send x) fan) \<and>
       trace w' = trace w @ issued w w' \<and>
       filter is_synchronize (issued w w') =
         (if deferred_pinned s \<noteq> [] \<and> need_sync s
          then [if event_configured cfg then EventSynchronize else StreamSynchronize]
          else []) \<and>
       need_sync s' =
         ((need_sync s \<and> deferred_pinned s = []) \<or>
          list_ex (\<lambda>j. copy_cuda_used e (copy_calls w + j) TRITONSERVER_MEMORY_CPU_PINNED
                          (memory_type (snd (deferred_fragments s ! j))))
            [0..<length (deferred_fragments s)]) \<and>
       deferred_pinned s' = [] \<and> r = need_sync s'"
proof -
  define syncs where "syncs = (if deferred_pinned s \<noteq> [] \<and> need_sync s
                 then [if event_configured cfg then EventSynchronize else StreamSynchronize]
                 else [])"
  define s1 where "s1 = (if deferred_pinned s \<noteq> [] \<and> need_sync s
                         then s\<lparr>need_sync := False\<rparr> else s)"
  define w1 where "w1 = (if deferred_pinned s \<noteq> [] \<and> need_sync s
                 then (if event_configured cfg then cudaEventSynchronize w
                       else cudaStreamSynchronize w)
                 else w)"
  obtain s2 w2 where fd: "finalize_deferred e (deferred_pinned s) (s1, w1) = (s2, w2)"
    using prod.exhaust by blast
  define recs where "recs = (if deferred_pinned s \<noteq> [] \<and> need_sync s2 \<and> event_configured cfg
                 then [EventRecord] else [])"
  define w3 where "w3 = (if deferred_pinned s \<noteq> [] \<and> need_sync s2 \<and> event_configured cfg
                then cudaEventRecord w2 else w2)"
  have sw1: "(if deferred_pinned s \<noteq> [] \<and> need_sync s
                 then (s\<lparr>need_sync := False\<rparr>,
                       if event_configured cfg then cudaEventSynchronize w
                       else cudaStreamSynchronize w)
                 else (s, w)) = (s1, w1)"
    by (simp add: s1_def w1_def)
  have F: "Finalize e cfg (s, w) = (need_sync s2, s2\<lparr>deferred_pinned := []\<rparr>, w3)"
    unfolding Finalize.simps Let_def sw1 fd prod.case w3_def by simp
  note fs = finalize_deferred_sum[OF fd]
  have t1: "trace w1 = trace w @ syncs" by (simp add: w1_def syncs_def)
  have c1: "copy_calls w1 = copy_calls w" by (simp add: w1_def)
  have d1: "deferred_pinned s1 = deferred_pinned s" by (simp add: s1_def)
  have n1: "need_sync s1 = (need_sync s \<and> deferred_pinned s = [])" by (auto simp: s1_def)
  note tr2 = issued_trans[OF t1 fs[THEN conjunct1]]
  have t3: "trace w3 = trace w2 @ recs" by (simp add: w3_def recs_def)
  have tw3: "trace w3 = trace w @ (syncs @ issued w1 w2 @ recs)"
    unfolding t3 tr2[THEN conjunct1] tr2[THEN conjunct2] by simp
  have i3: "issued w w3 = syncs @ issued w1 w2 @ recs" by (rule issued_append[OF tw3])
  have fan1: "filter is_copy (issued w1 w2) = deferred_copies s"
    using fs by (simp add: deferred_copies_def)
  have fan2: "list_all (\<lambda>x. is_copy x \<or> is_send x) (issued w1 w2)"
    using fs by (simp add: list_all_iff)
  have nosync: "filter is_synchronize (issued w1 w2) = []"
  proof -
    have "is_copy x \<or> is_send x \<Longrightarrow> \<not> is_synchronize x" for x by (cases x) simp_all
    then show ?thesis using fs by (simp add: filter_empty_conv)
  qed
  have a: "\<exists>fan. issued w w3 = syncs @ fan @ recs \<and> filter is_copy fan = deferred_copies s \<and>
              list_all (\<lambda>x. is_copy x \<or> is_send x) fan"
    by (rule exI[of _ "issued w1 w2"]) (simp add: i3 fan1 fan2)
  have b: "trace w3 = trace w @ issued w w3" unfolding i3 by (rule tw3)
  have c: "filter is_synchronize (issued w w3) = syncs"
    unfolding i3 using nosync by (simp add: syncs_def recs_def)
  have d: "need_sync s2 =
         ((need_sync s \<and> deferred_pinned s = []) \<or>
          list_ex (\<lambda>j. copy_cuda_used e (copy_calls w + j) TRITONSERVER_MEMORY_CPU_PINNED
                          (memory_type (snd (deferred_fragments s ! j))))
            [0..<length (deferred_fragments s)])"
    using fs n1 c1 by (simp add: deferred_fragments_def list_ex_iff Bex_def)
  show ?thesis unfolding F prod.case
    using a b c d by (simp add: syncs_def recs_def)
qed

theorem C4_Finalize_witness:
  "(case Finalize (example_env (\<lambda>_. None) (\<lambda>_. None))
          (example_config [TRITONSERVER_MEMORY_CPU, TRITONSERVER_MEMORY_CPU])
          (example_deferred, new_world example_memory) of
      (r, s', w') \<Rightarrow>
        filter is_synchronize (issued (new_world example_memory) w') = [StreamSynchronize] \<and>
        filter is_copy (issued (new_world example_memory) w') =
          [CopyBufferCall ''OUT'' TRITONSERVER_MEMORY_CPU_PINNED 0 TRITONSERVER_MEMORY_CPU 0 4
             (PinnedBlock 0, 0) (OutputBlock 0 ''OUT'', 0),
           CopyBufferCall ''OUT'' TRITONSERVER_MEMORY_CPU_PINNED 0 TRITONSERVER_MEMORY_CPU 0 2
             (PinnedBlock 0, 4) (OutputBlock 1 ''OUT'', 0)] \<and>
        deferred_pinned s' = [] \<and> r = need_sync s')"
proof -
  let ?e = "example_env (\<lambda>_. None) (\<lambda>_. None)"
  let ?cfg = "example_config [TRITONSERVER_MEMORY_CPU, TRITONSERVER_MEMORY_CPU]"
  let ?w = "new_world example_memory"
  have k: "list_all (\<lambda>x. is_copy x \<or> is_send x) fan \<Longrightarrow>
             filter is_copy ([StreamSynchronize] @ fan @ []) = filter is_copy fan" for fan
    by simp
  show ?thesis
    using C4_Finalize[where e = ?e and cfg = ?cfg and s = example_deferred and w = ?w]
    by (auto simp add: split_beta example_deferred_def example_config_def example_fragment_def
        deferred_copies_def ptr_add_def)
qed

section \<open>Claim C5: failure of the bulk copy\<close>

text \<open>
  Claim C5. If the bulk copy from the tensor buffer into the pinned buffer fails, every
  response among the pending fragments that is not already null is sent the error, once,
  and its slot is set to null; already-null slots are skipped; no other slot changes; and
  the pinned buffer that was allocated is still retained for freeing.
\<close>

theorem C5_bulk_copy_failure_fails_pending_responses:
  assumes "0 < pending_pinned_byte_size s" and "alloc_error e (alloc_calls w) = None"
    and "copy_error e (copy_calls w) = Some err"
    and "distinct (map fst (pending_pinned_outputs s))"
    and "\<forall>pr \<in> set (pending_pinned_outputs s). fst pr < length (responses s)"
  shows "case FlushPendingPinned e tb tmt tmid (s, w) of
     (cuda_copy, s', w') \<Rightarrow>
       trace w' = trace w @ issued w w' \<and>
       filter is_send (issued w w') =
         failed_sends err (responses s) (pending_pinned_outputs s) \<and>
       length (responses s') = length (responses s) \<and>
       (\<forall>i<length (responses s).
          responses s' ! i =
            (if i \<in> fst ` set (pending_pinned_outputs s) then None else responses s ! i)) \<and>
       pinned_memories s' = pinned_memories s @ [(PinnedBlock (alloc_calls w), 0)] \<and>
       deferred_pinned s' = deferred_pinned s"
proof -
  obtain cuda_copy s' w' where eq: "FlushPendingPinned e tb tmt tmid (s, w) = (cuda_copy, s', w')"
    using prod_cases3 by blast
  let ?pinned = "(PinnedBlock (alloc_calls w), 0)"
  let ?w1 = "w\<lparr>alloc_calls := Suc (alloc_calls w),
                    trace := trace w @ [MemoryManagerAllocate TRITONSERVER_MEMORY_CPU_PINNED 0
                                   (pending_pinned_byte_size s)]\<rparr>"
  let ?frags = "pending_pinned_outputs s"
  let ?bulk = "CopyBufferCall ''pinned buffer'' tmt tmid TRITONSERVER_MEMORY_CPU_PINNED 0
                  (pending_pinned_byte_size s) (ptr_add tb (pending_pinned_offset s)) ?pinned"
  let ?w2 = "snd (CopyBuffer e ''pinned buffer'' tmt tmid TRITONSERVER_MEMORY_CPU_PINNED 0
                  (pending_pinned_byte_size s) (ptr_add tb (pending_pinned_offset s)) ?pinned ?w1)"
  have err: "copy_error e (copy_calls ?w1) = Some err" using assms(3) by simp
  then have nused: "\<not> copy_cuda_used e (copy_calls ?w1) tmt TRITONSERVER_MEMORY_CPU_PINNED"
    by (simp add: copy_cuda_used_def)
  show ?thesis
  proof (rule FlushPendingPinned_allocated[OF assms(1,2) eq])
    fix s2
    assume fp: "flush_pinned e tb tmt tmid ?pinned (s, ?w1) = (cuda_copy, s2, w')"
      and s': "s' = (clear_pending s2)\<lparr>pinned_memories := pinned_memories s2 @ [?pinned]\<rparr>"
    obtain s3 w3 where ff: "fail_fragments err ?frags (s, ?w2) = (s3, w3)"
      by (cases "fail_fragments err ?frags (s, ?w2)") blast
    from fp have cf: "copy_fragments e TRITONSERVER_MEMORY_CPU_PINNED 0 ?pinned ?frags 0 False
                        (s3, w3) = (cuda_copy, s2, w')"
      by (simp add: flush_pinned_sync[OF nused] assms(3) ff)
    note fs = fail_fragments_sum[OF ff]
    note ro3 = responses_only_fields[OF fs[THEN conjunct1]]
    note to3 = trace_only_fields[OF fs[THEN conjunct2, THEN conjunct2, THEN conjunct1]]
    note ct = copy_fragments_trace[OF cf]
    note ro2 = responses_only_fields[OF copy_fragments_state[OF cf]]
    have t12: "trace ?w2 = trace w @ [MemoryManagerAllocate TRITONSERVER_MEMORY_CPU_PINNED 0
                                   (pending_pinned_byte_size s), ?bulk]"
      by simp
    note tr3 = issued_trans[OF t12 to3(7)]
    have t3: "trace w3 = trace w @ issued w w3" using tr3 by simp
    note tr = issued_trans[OF t3 ct(1)]
    have null3: "responses s3 ! fst (?frags ! j) = None" if "j < length ?frags" for j
    proof -
      from that have m: "?frags ! j \<in> set ?frags" by simp
      with assms(5) have "fst (?frags ! j) < length (responses s)" by blast
      moreover from m have "fst (?frags ! j) \<in> fst ` set ?frags" by (rule imageI)
      ultimately show ?thesis using fs by simp
    qed
    then have nosend: "filter is_send (issued w3 w') = []"
      by (intro ct(6)) simp
    have sends3: "filter is_send (issued w w3) = failed_sends err (responses s) ?frags"
      using tr3 fs assms(4) by simp
    have f1: "trace w' = trace w @ issued w w'" using tr by simp
    have f2: "filter is_send (issued w w') = failed_sends err (responses s) ?frags"
      using tr nosend sends3 by simp
    have rs: "responses s' = responses s2" by (simp add: s' clear_pending_def)
    have f3: "length (responses s') = length (responses s)"
      using ro2(7) ro3(7) rs by simp
    have f4: "\<forall>i<length (responses s).
          responses s' ! i = (if i \<in> fst ` set ?frags then None else responses s ! i)"
    proof (intro allI impI)
      fix i assume i: "i < length (responses s)"
      then have i3: "i < length (responses s3)" using ro3(7) by simp
      have a: "responses s3 ! i = (if i \<in> fst ` set ?frags then None else responses s ! i)"
        using fs i by simp
      show "responses s' ! i = (if i \<in> fst ` set ?frags then None else responses s ! i)"
      proof (cases "i \<in> fst ` set ?frags")
        case True
        then have "responses s3 ! i = None" using a by simp
        then have "responses s2 ! i = None"
          by (rule copy_fragments_keeps_null[OF cf i3])
        then show ?thesis using True rs by simp
      next
        case False
        then have "responses s2 ! i = responses s3 ! i"
          by (rule copy_fragments_keeps_other[OF cf i3])
        then show ?thesis using False a rs by simp
      qed
    qed
    have f5: "pinned_memories s' = pinned_memories s @ [?pinned]"
      using ro2(6) ro3(6) by (simp add: s' clear_pending_def)
    have f6: "deferred_pinned s' = deferred_pinned s"
      using ro2(5) ro3(5) by (simp add: s' clear_pending_def)
    show ?thesis unfolding eq prod.case by (intro conjI f1 f2 f3 f4 f5 f6)
  qed
qed

theorem C5_bulk_copy_failure_fails_pending_responses_witness:
  "0 < pending_pinned_byte_size (example_pending TRITONSERVER_MEMORY_CPU) \<and>
   alloc_error (example_env (\<lambda>k. if k = 0 then Some ''copy failed'' else None) (\<lambda>_. None))
     (alloc_calls (new_world example_memory)) = None \<and>
   copy_error (example_env (\<lambda>k. if k = 0 then Some ''copy failed'' else None) (\<lambda>_. None))
     (copy_calls (new_world example_memory)) = Some ''copy failed'' \<and>
   distinct (map fst (pending_pinned_outputs (example_pending TRITONSERVER_MEMORY_CPU))) \<and>
   list_all (\<lambda>pr. fst pr < length (responses (example_pending TRITONSERVER_MEMORY_CPU)))
     (pending_pinned_outputs (example_pending TRITONSERVER_MEMORY_CPU)) \<and>
   (case FlushPendingPinned
           (example_env (\<lambda>k. if k = 0 then Some ''copy failed'' else None) (\<lambda>_. None))
           (CallerBlock 0, 0) TRITONSERVER_MEMORY_GPU 0
           (example_pending TRITONSERVER_MEMORY_CPU, new_world example_memory) of
      (cuda_copy, s', w') \<Rightarrow>
        filter is_send (issued (new_world example_memory) w') =
          [ResponseSend 10 ''copy failed'', ResponseSend 11 ''copy failed''] \<and>
        pinned_memories s' = [(PinnedBlock 0, 0)] \<and> deferred_pinned s' = [])"
proof -
  let ?e = "example_env (\<lambda>k. if k = 0 then Some ''copy failed'' else None) (\<lambda>_. None)"
  let ?s = "example_pending TRITONSERVER_MEMORY_CPU"
  let ?w = "new_world example_memory"
  have h1: "0 < pending_pinned_byte_size ?s" by (simp add: example_pending_def)
  have h2: "alloc_error ?e (alloc_calls ?w) = None" by (simp add: example_env_def)
  have h3: "copy_error ?e (copy_calls ?w) = Some ''copy failed''"
    by (simp add: example_env_def new_world_def)
  have h4: "distinct (map fst (pending_pinned_outputs ?s))"
    by (simp add: example_pending_def example_fragment_def)
  have h5: "\<forall>pr \<in> set (pending_pinned_outputs ?s). fst pr < length (responses ?s)"
    by (simp add: example_pending_def example_fragment_def)
  show ?thesis
    using C5_bulk_copy_failure_fails_pending_responses[OF h1 h2 h3 h4 h5,
        where tb = "(CallerBlock 0, 0)" and tmt = TRITONSERVER_MEMORY_GPU and tmid = 0]
      h1 h2 h3 h4 h5
    by (simp add: split_beta failed_sends_def example_pending_def example_fragment_def
        new_world_def list_all_iff)
qed

section \<open>Claim C6: failure of the pinned allocation\<close>

text \<open>
  Claim C6. When the allocation of the pinned staging buffer fails during a flush, the
  failure itself fails no response: the flush makes one direct copy per pending fragment
  from the tensor buffer, at the fragment's offset within the run, into the fragment's
  response buffer; it reports an asynchronous copy exactly when one of these copies was
  asynchronous; a response slot becomes null only where its own copy failed; nothing is
  retained or deferred.
\<close>

theorem C6_flush_falls_back_to_direct_copies:
  assumes "0 < pending_pinned_byte_size s" and "alloc_error e (alloc_calls w) \<noteq> None"
  shows "case FlushPendingPinned e tb tmt tmid (s, w) of
     (cuda_copy, s', w') \<Rightarrow>
       trace w' = trace w @ issued w w' \<and>
       filter is_allocate (issued w w') =
         [MemoryManagerAllocate TRITONSERVER_MEMORY_CPU_PINNED 0 (pending_pinned_byte_size s)] \<and>
       filter is_copy (issued w w') =
         fragment_copies tmt tmid (ptr_add tb (pending_pinned_offset s))
           (pending_pinned_outputs s) 0 \<and>
       cuda_copy = (\<exists>j<length (pending_pinned_outputs s).
                      copy_cuda_used e (copy_calls w + j) tmt
                        (memory_type (snd (pending_pinned_outputs s ! j)))) \<and>
       length (responses s') = length (responses s) \<and>
       (\<forall>i<length (responses s).
          responses s' ! i =
            (if \<exists>j<length (pending_pinned_outputs s).
                  fst (pending_pinned_outputs s ! j) = i \<and> copy_error e (copy_calls w + j) \<noteq> None
             then None else responses s ! i)) \<and>
       ((\<forall>j<length (pending_pinned_outputs s). copy_error e (copy_calls w + j) = None) \<longrightarrow>
          responses s' = responses s \<and> filter is_send (issued w w') = []) \<and>
       pinned_memories s' = pinned_memories s \<and> deferred_pinned s' = deferred_pinned s \<and>
       pending_pinned_byte_size s' = 0 \<and> pending_pinned_outputs s' = []"
proof -
  obtain cuda_copy s' w' where eq: "FlushPendingPinned e tb tmt tmid (s, w) = (cuda_copy, s', w')"
    using prod_cases3 by blast
  let ?w1 = "w\<lparr>alloc_calls := Suc (alloc_calls w),
                    trace := trace w @ [MemoryManagerAllocate TRITONSERVER_MEMORY_CPU_PINNED 0
                                   (pending_pinned_byte_size s)]\<rparr>"
  let ?frags = "pending_pinned_outputs s"
  show ?thesis
  proof (rule FlushPendingPinned_alloc_failed[OF assms eq])
  fix s2
  assume cf: "copy_fragments e tmt tmid (ptr_add tb (pending_pinned_offset s)) ?frags 0
           False (s, ?w1) = (cuda_copy, s2, w')"
    and s': "s' = clear_pending s2"
  have t1: "trace ?w1 = trace w @ [MemoryManagerAllocate TRITONSERVER_MEMORY_CPU_PINNED 0
                                   (pending_pinned_byte_size s)]" by simp
  note ct = copy_fragments_trace[OF cf]
  note tr = issued_trans[OF t1 ct(1)]
  note ro = responses_only_fields[OF copy_fragments_state[OF cf]]
  have rs: "responses s' = responses s2" by (simp add: s' clear_pending_def)
  have f1: "trace w' = trace w @ issued w w'" using tr by simp
  have f2: "filter is_allocate (issued w w') =
         [MemoryManagerAllocate TRITONSERVER_MEMORY_CPU_PINNED 0 (pending_pinned_byte_size s)]"
    using tr ct(3) by simp
  have f3: "filter is_copy (issued w w') =
         fragment_copies tmt tmid (ptr_add tb (pending_pinned_offset s)) ?frags 0"
    using tr ct(2) by simp
  have f4: "cuda_copy = (\<exists>j<length ?frags.
                      copy_cuda_used e (copy_calls w + j) tmt (memory_type (snd (?frags ! j))))"
    using copy_fragments_flag(1)[OF cf] by simp
  have f5: "length (responses s') = length (responses s)" using ro(7) rs by simp
  have f6: "\<forall>i<length (responses s).
          responses s' ! i =
            (if \<exists>j<length ?frags. fst (?frags ! j) = i \<and> copy_error e (copy_calls w + j) \<noteq> None
             then None else responses s ! i)"
    using copy_fragments_responses[OF cf] rs by simp
  have f7: "(\<forall>j<length ?frags. copy_error e (copy_calls w + j) = None) \<longrightarrow>
          responses s' = responses s \<and> filter is_send (issued w w') = []"
  proof (intro impI conjI)
    assume ok: "\<forall>j<length ?frags. copy_error e (copy_calls w + j) = None"
    have ne: "\<not> (\<exists>j<length ?frags. fst (?frags ! j) = i \<and>
                copy_error e (copy_calls w + j) \<noteq> None)" for i using ok by simp
    have "responses s' ! i = responses s ! i" if "i < length (responses s)" for i
      using f6[rule_format, OF that] by (simp only: ne if_False)
    with f5 show "responses s' = responses s" by (simp add: list_eq_iff_nth_eq)
    from ok have "filter is_send (issued ?w1 w') = []" by (intro ct(6)) simp
    then show "filter is_send (issued w w') = []" using tr by simp
  qed
  have f8: "pinned_memories s' = pinned_memories s" "deferred_pinned s' = deferred_pinned s"
    "pending_pinned_byte_size s' = 0" "pending_pinned_outputs s' = []"
    using ro by (simp_all add: s' clear_pending_def)
  show ?thesis unfolding eq prod.case by (intro conjI f1 f2 f3 f4 f5 f6 f7 f8)
  qed
qed

theorem C6_flush_falls_back_to_direct_copies_witness:
  "0 < pending_pinned_byte_size (example_pending TRITONSERVER_MEMORY_CPU) \<and>
   alloc_error (example_env (\<lambda>_. None) (\<lambda>_. Some ''no pinned memory''))
     (alloc_calls (new_world example_memory)) \<noteq> None \<and>
   (case FlushPendingPinned (example_env (\<lambda>_. None) (\<lambda>_. Some ''no pinned memory''))
           (CallerBlock 0, 0) TRITONSERVER_MEMORY_GPU 0
           (example_pending TRITONSERVER_MEMORY_CPU, new_world example_memory) of
      (cuda_copy, s', w') \<Rightarrow>
        filter is_copy (issued (new_world example_memory) w') =
          [CopyBufferCall ''OUT'' TRITONSERVER_MEMORY_GPU 0 TRITONSERVER_MEMORY_CPU 0 4
             (CallerBlock 0, 0) (OutputBlock 0 ''OUT'', 0),
           CopyBufferCall ''OUT'' TRITONSERVER_MEMORY_GPU 0 TRITONSERVER_MEMORY_CPU 0 2
             (CallerBlock 0, 4) (OutputBlock 1 ''OUT'', 0)] \<and>
        responses s' = [Some 10, Some 11] \<and> pinned_memories s' = [])"
proof -
  let ?e = "example_env (\<lambda>_. None) (\<lambda>_. Some ''no pinned memory'')"
  have h1: "0 < pending_pinned_byte_size (example_pending TRITONSERVER_MEMORY_CPU)"
    by (simp add: example_pending_def)
  have h2: "alloc_error ?e (alloc_calls (new_world example_memory)) \<noteq> None"
    by (simp add: example_env_def)
  have ok: "\<forall>j<length (pending_pinned_outputs (example_pending TRITONSERVER_MEMORY_CPU)).
              copy_error ?e (copy_calls (new_world example_memory) + j) = None"
    by (simp add: example_env_def)
  show ?thesis
    using C6_flush_falls_back_to_direct_copies[OF h1 h2, where tb = "(CallerBlock 0, 0)"
        and tmt = TRITONSERVER_MEMORY_GPU and tmid = 0] h1 h2 ok
    by (simp add: split_beta example_pending_def example_fragment_def ptr_add_def)
qed

section \<open>Claim C7: the pending run\<close>



section \<open>Claim C8: skipped slots\<close>



section \<open>Claim C10: a tensor in pinned memory\<close>



end
